theory Spec2Isabelle
  imports Main
begin

section \<open>Python values: strings, exceptions\<close>

text \<open>
  Python strings are modelled as \<^typ>\<open>string\<close>; a character is a code point below 256.
  \<open>str.isspace\<close> holds on that range for tab, line feed, vertical tab, form feed,
  carriage return, the four separators 28..31, space, NEL (133) and the no-break
  space (160). \<open>str.strip()\<close> removes such characters at both ends.
\<close>

definition isspace :: "char \<Rightarrow> bool" where
  "isspace c = ((of_char c :: nat) \<in> set [9, 10, 11, 12, 13, 28, 29, 30, 31, 32, 133, 160])"

definition strip :: "string \<Rightarrow> string" where
  "strip s = rev (dropWhile isspace (rev (dropWhile isspace s)))"

text \<open>\<open>sep.join(xs)\<close>.\<close>

fun join :: "string \<Rightarrow> string list \<Rightarrow> string" where
  "join sep [] = []"
| "join sep [x] = x"
| "join sep (x # y # ys) = x @ sep @ join sep (y # ys)"

text \<open>
  Exceptions are values. The services raise \<open>ValueError\<close> and \<open>RuntimeError\<close>
  themselves; \<open>LibraryError\<close> stands for any other exception class raised by a
  collaborator. \<open>str_exn\<close> is \<open>str(e)\<close>, the message.
\<close>

datatype exn = ValueError string | RuntimeError string | LibraryError string

fun str_exn :: "exn \<Rightarrow> string" where
  "str_exn (ValueError m) = m"
| "str_exn (RuntimeError m) = m"
| "str_exn (LibraryError m) = m"

section \<open>Data model (models/pdf\_chat.py)\<close>

text \<open>An entry of the history: the dictionary with keys \<open>user\<close>, \<open>ai\<close>, \<open>timestamp\<close>.\<close>

record message =
  user :: string
  ai :: string
  timestamp :: string

text \<open>The dataclass \<open>PDFChat\<close>; \<open>'kb\<close> is the type of vector indices.\<close>

record 'kb PDFChat =
  knowledge_base :: 'kb
  messages :: "message list"
  metadata :: "string \<rightharpoonup> string"
  created_at :: string

text \<open>
  Calls to collaborators and to the registry are recorded, in order, in a trace, so that
  statements about which calls a run makes can be expressed.
\<close>

datatype event =
    RegistryGet string
  | PathExists string
  | LoadLocal string
  | SaveLocal string
  | OpenPdf string
  | FromTexts "string list"
  | SimilaritySearch string nat
  | ModelInvoke string

text \<open>
  The mutable world of the services: the singleton \<open>chat_storage\<close> (the dictionary
  inside \<open>ChatStorage\<close>), the persisted indices on disk keyed by path, and the trace.
  What is stored at a path is described by what \<open>FAISS.load_local\<close> makes of it: an
  index, or an exception.
\<close>

record 'kb state =
  chat_storage :: "string \<rightharpoonup> 'kb PDFChat"
  disk :: "string \<rightharpoonup> (exn + 'kb)"
  trace :: "event list"

text \<open>A document returned by similarity search; an object may lack \<open>page_content\<close>.\<close>

datatype doc = Document (page_content: string) | NoPageContent

text \<open>
  The collaborators that are not code of this repository are parameters:
  \<^item> \<open>pdf_reader\<close>: opening the file and reading it with \<open>PdfReader\<close> fails, or gives
    the pages, each described by what \<open>extract_text()\<close> does on it (raise, or a text);
  \<^item> \<open>embed_index\<close>: embedding a non-empty list of texts and indexing the vectors;
  \<^item> \<open>save_error\<close>: the exception with which a write to a path fails, if it does;
  \<^item> \<open>has_similarity_search\<close>: \<open>hasattr(knowledge_base, "similarity_search")\<close>;
  \<^item> \<open>similarity_search\<close>: the search for a query and a number \<open>k\<close> of results;
  \<^item> \<open>model_invoke\<close>: the language model, from the prompt to the text of the reply;
  \<^item> \<open>path_join\<close>, \<open>path_name\<close>: \<open>pathlib\<close>'s \<open>/\<close> and \<open>.name\<close>.
\<close>

record 'kb env =
  pdf_reader :: "string \<Rightarrow> exn + (exn + string) list"
  embed_index :: "string list \<Rightarrow> exn + 'kb"
  save_error :: "string \<Rightarrow> exn option"
  has_similarity_search :: "'kb \<Rightarrow> bool"
  similarity_search :: "'kb \<Rightarrow> string \<Rightarrow> nat \<Rightarrow> exn + doc list"
  model_invoke :: "string \<Rightarrow> exn + string"
  path_join :: "string \<Rightarrow> string \<Rightarrow> string"
  path_name :: "string \<Rightarrow> string"

section \<open>Actions: state passing with exceptions\<close>

type_synonym ('kb, 'a) action = "'kb state \<Rightarrow> (exn + 'a) \<times> 'kb state"

definition emit :: "event \<Rightarrow> 'kb state \<Rightarrow> 'kb state" where
  "emit ev s = s\<lparr>trace := trace s @ [ev]\<rparr>"

text \<open>Sequencing: an exception of the first action skips the second.\<close>

definition and_then :: "('kb, 'a) action \<Rightarrow> ('a \<Rightarrow> ('kb, 'b) action) \<Rightarrow> ('kb, 'b) action" where
  "and_then m f s = (case m s of (Inl e, s') \<Rightarrow> (Inl e, s') | (Inr x, s') \<Rightarrow> f x s')"

text \<open>
  \<open>try: ... except Exception as e: raise RuntimeError(f"<msg>: {str(e)}")\<close>:
  every exception of the body is replaced by a \<open>RuntimeError\<close>.
\<close>

definition reraise :: "string \<Rightarrow> ('kb, 'a) action \<Rightarrow> ('kb, 'a) action" where
  "reraise msg m s =
     (case m s of
        (Inl e, s') \<Rightarrow> (Inl (RuntimeError (msg @ '': '' @ str_exn e)), s')
      | (Inr x, s') \<Rightarrow> (Inr x, s'))"


section \<open>The chunker (utils/text\_splitter.py)\<close>

abbreviation NL :: char where
  "NL \<equiv> CHR 0x0A"

text \<open>
  Modelled from the spec: the chunker class that \<open>split_text\<close> instantiates
  (\<open>CharacterTextSplitter\<close> with its \<open>split_text\<close>, \<open>_merge_splits\<close> and
  \<open>_join_docs\<close>) is library code that is not among the sources; only the call with its
  parameters is. Section 4.1 of the specification describes it: it splits on the
  separator first, then greedily packs the pieces into chunks, carrying text from the
  tail of one chunk into the head of the next. The description does not fix the
  procedure; the definitions below are the procedure of the library class, which is
  what the call runs: the text is split at the separator, empty pieces are dropped, a
  chunk is a run of pieces joined by the separator and stripped of surrounding
  whitespace, an empty chunk is not emitted, whole pieces are carried over while they
  are within \<open>chunk_overlap\<close>, and a piece that does not fit is put into a chunk of
  its own.
\<close>

text \<open>Splitting at every occurrence of a one-character separator.\<close>

fun split_on :: "char \<Rightarrow> string \<Rightarrow> string list" where
  "split_on c [] = [[]]"
| "split_on c (x # xs) =
     (if x = c then [] # split_on c xs
      else (let r = split_on c xs in (x # hd r) # tl r))"

definition split_text_with_regex :: "string \<Rightarrow> char \<Rightarrow> string list" where
  "split_text_with_regex text separator = filter (\<lambda>s. s \<noteq> []) (split_on separator text)"

definition join_docs :: "string \<Rightarrow> string list \<Rightarrow> string option" where
  "join_docs separator docs =
     (let text = strip (join separator docs) in if text = [] then None else Some text)"

text \<open>
  The inner loop of the merge: pieces are dropped from the front of the current chunk
  while it is longer than the overlap, or while the next piece (of length \<open>len\<close>)
  would not fit. Reading the first piece of an empty list raises.
\<close>

fun pop_front :: "int \<Rightarrow> int \<Rightarrow> int \<Rightarrow> int \<Rightarrow> string list \<Rightarrow> int \<Rightarrow> exn + (string list \<times> int)" where
  "pop_front chunk_size chunk_overlap separator_len len [] tot =
     (if tot > chunk_overlap \<or> (tot + len + 0 > chunk_size \<and> tot > 0)
      then Inl (LibraryError ''list index out of range'')
      else Inr ([], tot))"
| "pop_front chunk_size chunk_overlap separator_len len (c # cs) tot =
     (if tot > chunk_overlap \<or> (tot + len + separator_len > chunk_size \<and> tot > 0)
      then pop_front chunk_size chunk_overlap separator_len len cs
             (tot - (int (length c) + (if length (c # cs) > 1 then separator_len else 0)))
      else Inr (c # cs, tot))"

text \<open>Appending a piece to the current chunk, and adding its length to the running length.\<close>

definition add_piece :: "int \<Rightarrow> string \<Rightarrow> string list \<times> int \<Rightarrow> string list \<times> int" where
  "add_piece separator_len d ct =
     (case ct of (current_doc, tot) \<Rightarrow>
        (current_doc @ [d],
         tot + int (length d) + (if length (current_doc @ [d]) > 1 then separator_len else 0)))"

text \<open>
  The outer loop over the pieces, on the chunks emitted so far and the pair of the
  pieces of the current chunk and the running length \<open>total\<close> (here \<open>tot\<close>).
\<close>

fun merge_loop ::
  "int \<Rightarrow> int \<Rightarrow> string \<Rightarrow> string list \<Rightarrow> string list \<times> string list \<times> int
     \<Rightarrow> exn + (string list \<times> string list \<times> int)" where
  "merge_loop chunk_size chunk_overlap separator [] st = Inr st"
| "merge_loop chunk_size chunk_overlap separator (d # ds) (docs, current_doc, tot) =
     (let separator_len = int (length separator);
          len = int (length d)
      in
      if tot + len + (if length current_doc > 0 then separator_len else 0) > chunk_size
      then
        (if length current_doc > 0
         then
           (let docs' = (case join_docs separator current_doc of
                           None \<Rightarrow> docs
                         | Some doc \<Rightarrow> docs @ [doc])
            in case pop_front chunk_size chunk_overlap separator_len len current_doc tot of
                 Inl e \<Rightarrow> Inl e
               | Inr ct \<Rightarrow>
                   merge_loop chunk_size chunk_overlap separator ds
                     (docs', add_piece separator_len d ct))
         else merge_loop chunk_size chunk_overlap separator ds
                (docs, add_piece separator_len d (current_doc, tot)))
      else merge_loop chunk_size chunk_overlap separator ds
             (docs, add_piece separator_len d (current_doc, tot)))"

definition merge_splits :: "int \<Rightarrow> int \<Rightarrow> string \<Rightarrow> string list \<Rightarrow> exn + string list" where
  "merge_splits chunk_size chunk_overlap separator splits =
     (case merge_loop chunk_size chunk_overlap separator splits ([], [], 0) of
        Inl e \<Rightarrow> Inl e
      | Inr (docs, current_doc, tot) \<Rightarrow>
          (case join_docs separator current_doc of
             None \<Rightarrow> Inr docs
           | Some doc \<Rightarrow> Inr (docs @ [doc])))"

definition CharacterTextSplitter_split_text ::
  "char \<Rightarrow> int \<Rightarrow> int \<Rightarrow> string \<Rightarrow> exn + string list" where
  "CharacterTextSplitter_split_text separator chunk_size chunk_overlap text =
     merge_splits chunk_size chunk_overlap [separator] (split_text_with_regex text separator)"

text \<open>\<open>split_text\<close> of the repository: the chunker with its fixed parameters.\<close>

definition split_text :: "string \<Rightarrow> exn + string list" where
  "split_text text = CharacterTextSplitter_split_text NL 1000 200 text"










section \<open>The document ingestor and the knowledge base store (services/pdf\_service.py)\<close>

text \<open>\<open>embeddings_dir\<close> of the singleton processor, whose \<open>storage_dir\<close> is \<open>storage\<close>.\<close>

definition embeddings_dir :: "'kb env \<Rightarrow> string" where
  "embeddings_dir env = path_join env ''storage'' ''embeddings''"

definition embedding_path :: "'kb env \<Rightarrow> string \<Rightarrow> string" where
  "embedding_path env chat_id = path_join env (embeddings_dir env) (chat_id @ ''.faiss'')"

text \<open>
  Modelled from the spec: the vector index class (\<open>FAISS\<close>) is a library that is not
  among the sources. By section 4.2, saving writes the index at the path, overwriting
  what was there, or fails with a storage error; loading returns what is persisted
  at the path; by section 4.3 (step 3), building fails if the chunk sequence is empty.
\<close>

definition FAISS_save_local :: "'kb env \<Rightarrow> 'kb \<Rightarrow> string \<Rightarrow> ('kb, unit) action" where
  "FAISS_save_local env kb path s =
     (let s1 = emit (SaveLocal path) s in
      case save_error env path of
        Some e \<Rightarrow> (Inl e, s1)
      | None \<Rightarrow> (Inr (), s1\<lparr>disk := (disk s1)(path \<mapsto> Inr kb)\<rparr>))"

definition FAISS_load_local :: "string \<Rightarrow> ('kb, 'kb) action" where
  "FAISS_load_local path s =
     (let s1 = emit (LoadLocal path) s in
      case disk s1 path of
        None \<Rightarrow> (Inl (LibraryError ''could not open index for reading''), s1)
      | Some r \<Rightarrow> (r, s1))"

definition FAISS_from_texts :: "'kb env \<Rightarrow> string list \<Rightarrow> ('kb, 'kb) action" where
  "FAISS_from_texts env texts s =
     (let s1 = emit (FromTexts texts) s in
      if texts = [] then (Inl (LibraryError ''list index out of range''), s1)
      else (embed_index env texts, s1))"

definition save_knowledge_base :: "'kb env \<Rightarrow> string \<Rightarrow> 'kb \<Rightarrow> ('kb, unit) action" where
  "save_knowledge_base env chat_id kb =
     reraise ''Failed to save knowledge base''
       (FAISS_save_local env kb (embedding_path env chat_id))"

definition load_knowledge_base :: "'kb env \<Rightarrow> string \<Rightarrow> ('kb, 'kb option) action" where
  "load_knowledge_base env chat_id =
     reraise ''Failed to load knowledge base''
       (\<lambda>s. let path = embedding_path env chat_id;
                 s1 = emit (PathExists path) s
             in if path \<in> dom (disk s1)
                then and_then (FAISS_load_local path) (\<lambda>kb s'. (Inr (Some kb), s')) s1
                else (Inr None, s1))"

text \<open>
  The generator inside \<open>"".join(...)\<close>: for each page in order, \<open>extract_text()\<close> is
  called for the test and, if the result is non-empty, again for the value. An
  exception of either call leaves the generator and the join.
\<close>

fun join_pages :: "(exn + string) list \<Rightarrow> exn + string" where
  "join_pages [] = Inr []"
| "join_pages (Inl e # pages) = Inl e"
| "join_pages (Inr t # pages) =
     (if t \<noteq> []
      then (case join_pages pages of Inl e \<Rightarrow> Inl e | Inr rest \<Rightarrow> Inr (t @ rest))
      else join_pages pages)"

definition extract_text_from_pdf :: "'kb env \<Rightarrow> string \<Rightarrow> ('kb, string) action" where
  "extract_text_from_pdf env file_path =
     reraise ''Failed to extract text from PDF''
       (\<lambda>s. let s1 = emit (OpenPdf file_path) s in
             case pdf_reader env file_path of
               Inl e \<Rightarrow> (Inl e, s1)
             | Inr pages \<Rightarrow> (join_pages pages, s1))"

definition create_knowledge_base :: "'kb env \<Rightarrow> string \<Rightarrow> ('kb, 'kb) action" where
  "create_knowledge_base env text =
     reraise ''Failed to create knowledge base''
       (\<lambda>s. case split_text text of
               Inl e \<Rightarrow> (Inl e, s)
             | Inr chunks \<Rightarrow> FAISS_from_texts env chunks s)"

text \<open>
  \<open>process_pdf\<close>. The fresh identifier \<open>str(uuid.uuid4())\<close> and the two readings of the
  clock (for the metadata and for the default of \<open>created_at\<close>) are arguments.
\<close>

definition process_pdf ::
  "'kb env \<Rightarrow> string \<Rightarrow> string \<Rightarrow> string \<Rightarrow> string \<Rightarrow> ('kb, string) action" where
  "process_pdf env chat_id now_metadata now_created file_path =
     reraise ''Failed to process PDF''
       (and_then (extract_text_from_pdf env file_path) (\<lambda>text.
        and_then (create_knowledge_base env text) (\<lambda>kb.
        and_then (save_knowledge_base env chat_id kb) (\<lambda>_ s.
          (let chat = \<lparr>knowledge_base = kb, messages = [],
                        metadata = [''file_path'' \<mapsto> file_path,
                                    ''created_at'' \<mapsto> now_metadata,
                                    ''file_name'' \<mapsto> path_name env file_path],
                        created_at = now_created\<rparr>
           in (Inr chat_id, s\<lparr>chat_storage := (chat_storage s)(chat_id \<mapsto> chat)\<rparr>))))))"

text \<open>
  \<open>get_or_create_knowledge_base\<close>. An index object is always true in a condition; the
  stored file path counts if the key is present and the string is not empty.
\<close>

definition get_or_create_knowledge_base :: "'kb env \<Rightarrow> string \<Rightarrow> ('kb, 'kb option) action" where
  "get_or_create_knowledge_base env chat_id =
     reraise ''Failed to retrieve knowledge base''
       (and_then (load_knowledge_base env chat_id) (\<lambda>loaded.
          case loaded of
            Some kb \<Rightarrow> (\<lambda>s. (Inr (Some kb), s))
          | None \<Rightarrow>
              (\<lambda>s. let s1 = emit (RegistryGet chat_id) s in
                 case chat_storage s1 chat_id of
                   None \<Rightarrow> (Inr None, s1)
                 | Some chat_data \<Rightarrow>
                     (case metadata chat_data ''file_path'' of
                        None \<Rightarrow> (Inr None, s1)
                      | Some file_path \<Rightarrow>
                          if file_path = [] then (Inr None, s1)
                          else
                            and_then (extract_text_from_pdf env file_path) (\<lambda>text.
                            and_then (create_knowledge_base env text) (\<lambda>kb.
                            and_then (save_knowledge_base env chat_id kb) (\<lambda>_ s'.
                              (Inr (Some kb), s')))) s1))))"

section \<open>The conversation engine (services/chat\_service.py)\<close>

text \<open>
  \<open>ChatState\<close>: the messages (each given by its content) and the context. The result of
  \<open>get_response\<close> is the dictionary with keys \<open>response\<close> and \<open>chat_history\<close>.
\<close>

record ChatState =
  state_messages :: "string list"
  state_context :: string

record chat_response =
  response :: string
  chat_history :: "message list"

text \<open>\<open>xs[-1]\<close>, which raises on the empty list.\<close>

definition last_item :: "'a list \<Rightarrow> exn + 'a" where
  "last_item xs = (if xs = [] then Inl (LibraryError ''list index out of range'') else Inr (last xs))"

definition has_page_content :: "doc \<Rightarrow> bool" where
  "has_page_content d = (case d of Document _ \<Rightarrow> True | NoPageContent \<Rightarrow> False)"

text \<open>
  Modelled from the spec: \<open>search_chunks\<close> calls \<open>similarity_search\<close> with the question
  only, so the number of results is the default of the library, which is not among the
  sources; by section 4.4 (step 4) it is 4.
\<close>

definition default_k :: nat where
  "default_k = 4"

definition search_chunks :: "'kb env \<Rightarrow> ChatState \<Rightarrow> 'kb \<Rightarrow> ('kb, ChatState) action" where
  "search_chunks env st kb =
     reraise ''Failed to search document chunks''
       (\<lambda>s. case last_item (state_messages st) of
               Inl e \<Rightarrow> (Inl e, s)
             | Inr user_question \<Rightarrow>
                 if \<not> has_similarity_search env kb
                 then (Inl (ValueError ''Invalid knowledge base format''), s)
                 else
                   (let s1 = emit (SimilaritySearch user_question default_k) s in
                    case similarity_search env kb user_question default_k of
                      Inl e \<Rightarrow> (Inl e, s1)
                    | Inr docs \<Rightarrow>
                        if \<not> list_all has_page_content docs
                        then (Inl (ValueError ''Invalid document format in knowledge base''), s1)
                        else (Inr \<lparr>state_messages = state_messages st,
                                   state_context = join '' '' (map page_content docs)\<rparr>, s1)))"

definition combined_input :: "string \<Rightarrow> string \<Rightarrow> string" where
  "combined_input pdf_context user_question =
     ''Context from PDF:'' @ [NL] @ pdf_context @ [NL, NL] @
     ''User Question: '' @ user_question @ [NL, NL] @
     ''Please provide a response based on the context above.''"

definition call_model :: "'kb env \<Rightarrow> ChatState \<Rightarrow> ('kb, ChatState) action" where
  "call_model env st =
     reraise ''Failed to generate model response''
       (\<lambda>s. case last_item (state_messages st) of
               Inl e \<Rightarrow> (Inl e, s)
             | Inr user_question \<Rightarrow>
                 (let prompt = combined_input (state_context st) user_question;
                      s1 = emit (ModelInvoke prompt) s
                  in case model_invoke env prompt of
                       Inl e \<Rightarrow> (Inl e, s1)
                     | Inr reply \<Rightarrow>
                         (Inr \<lparr>state_messages = state_messages st @ [reply],
                               state_context = state_context st\<rparr>, s1)))"

text \<open>
  The compiled workflow, streamed in mode \<open>values\<close>: the graph has the entry point
  \<open>search\<close>, the edge from \<open>search\<close> to \<open>model\<close>, and the finish point \<open>model\<close>. The
  events are the state after the input and after each node; an exception of a node
  ends the stream.
\<close>

definition stream_workflow :: "'kb env \<Rightarrow> 'kb \<Rightarrow> ChatState \<Rightarrow> ('kb, ChatState list) action" where
  "stream_workflow env kb initial_state =
     and_then (search_chunks env initial_state kb) (\<lambda>st1.
     and_then (call_model env st1) (\<lambda>st2 s.
       (Inr [initial_state, st1, st2], s)))"

text \<open>
  The body of the \<open>try\<close> in \<open>get_response\<close>. The clock read by \<open>get_timestamp\<close> is the
  argument \<open>now\<close>. The session object is mutated in place, so the assignment to its
  \<open>knowledge_base\<close> is a change of the registry at once.
\<close>

definition get_response_body ::
  "'kb env \<Rightarrow> string \<Rightarrow> string \<Rightarrow> string \<Rightarrow> ('kb, chat_response) action" where
  "get_response_body env now chat_id user_question s =
     (if strip chat_id = [] then (Inl (ValueError ''Invalid chat ID''), s)
      else if strip user_question = [] then (Inl (ValueError ''Invalid user question''), s)
      else
        (let s1 = emit (RegistryGet chat_id) s in
         case chat_storage s1 chat_id of
           None \<Rightarrow> (Inl (ValueError (''Chat session not found for ID: '' @ chat_id)), s1)
         | Some chat_data \<Rightarrow>
             (case get_or_create_knowledge_base env chat_id s1 of
                (Inl e, s2) \<Rightarrow> (Inl e, s2)
              | (Inr None, s2) \<Rightarrow>
                  (Inl (ValueError (''Knowledge base not found for chat ID: '' @ chat_id)), s2)
              | (Inr (Some kb), s2) \<Rightarrow>
                  (let chat_data1 = chat_data\<lparr>knowledge_base := kb\<rparr>;
                       s3 = s2\<lparr>chat_storage := (chat_storage s2)(chat_id \<mapsto> chat_data1)\<rparr>;
                       initial_state = \<lparr>state_messages = [user_question], state_context = []\<rparr>
                   in case stream_workflow env kb initial_state s3 of
                        (Inl e, s4) \<Rightarrow> (Inl e, s4)
                      | (Inr events, s4) \<Rightarrow>
                          if events = []
                          then (Inl (RuntimeError ''No response generated from the model''), s4)
                          else
                            (case last_item (state_messages (last events)) of
                               Inl e \<Rightarrow> (Inl e, s4)
                             | Inr ai_response \<Rightarrow>
                                 (let chat_data2 = chat_data1\<lparr>messages := messages chat_data1 @
                                        [\<lparr>user = user_question, ai = ai_response, timestamp = now\<rparr>]\<rparr>;
                                      s5 = s4\<lparr>chat_storage := (chat_storage s4)(chat_id \<mapsto> chat_data2)\<rparr>
                                  in (Inr \<lparr>response = ai_response,
                                           chat_history = messages chat_data2\<rparr>, s5)))))))"

text \<open>
  \<open>get_response\<close>: a \<open>ValueError\<close> of the body is raised again as it is, any other
  exception is replaced by a \<open>RuntimeError\<close>.
\<close>

definition get_response ::
  "'kb env \<Rightarrow> string \<Rightarrow> string \<Rightarrow> string \<Rightarrow> ('kb, chat_response) action" where
  "get_response env now chat_id user_question s =
     (case get_response_body env now chat_id user_question s of
        (Inl (ValueError m), s') \<Rightarrow> (Inl (ValueError m), s')
      | (Inl e, s') \<Rightarrow>
          (Inl (RuntimeError (''Failed to process chat message: '' @ str_exn e)), s')
      | (Inr r, s') \<Rightarrow> (Inr r, s'))"

section \<open>The chat endpoint (api/v1/endpoints/chat.py)\<close>

text \<open>
  The endpoint returns the response, raises \<open>HTTPException\<close> with status 404 and the
  message of a \<open>ValueError\<close>, and lets every other exception through.
\<close>

datatype endpoint_result =
    Returned chat_response
  | HTTPException nat string
  | Uncaught exn

definition chat :: "'kb env \<Rightarrow> string \<Rightarrow> string \<Rightarrow> string \<Rightarrow> 'kb state \<Rightarrow> endpoint_result \<times> 'kb state" where
  "chat env now chat_id question s =
     (case get_response env now chat_id question s of
        (Inr r, s') \<Rightarrow> (Returned r, s')
      | (Inl (ValueError m), s') \<Rightarrow> (HTTPException 404 m, s')
      | (Inl e, s') \<Rightarrow> (Uncaught e, s'))"

section \<open>Runs and their traces\<close>

text \<open>The events that a run has added to the trace.\<close>

definition new_events :: "'kb state \<Rightarrow> 'kb state \<Rightarrow> event list" where
  "new_events s s' = drop (length (trace s)) (trace s')"

text \<open>The calls of the language model and of the similarity search among events.\<close>

fun is_model_invoke :: "event \<Rightarrow> bool" where
  "is_model_invoke (ModelInvoke _) = True"
| "is_model_invoke _ = False"

fun is_similarity_search :: "event \<Rightarrow> bool" where
  "is_similarity_search (SimilaritySearch _ _) = True"
| "is_similarity_search _ = False"

text \<open>
  Steps of the ingestor and of the store: they leave the registry as it is, and add to the
  trace neither a search nor a call of the model.
\<close>

definition store_event :: "event \<Rightarrow> bool" where
  "store_event ev = (\<not> is_model_invoke ev \<and> \<not> is_similarity_search ev)"

definition store_step :: "'kb state \<Rightarrow> 'kb state \<Rightarrow> bool" where
  "store_step s s' =
     (chat_storage s' = chat_storage s \<and>
      (\<exists>evs. trace s' = trace s @ evs \<and> list_all store_event evs))"

text \<open>
  A sequence of chat calls, each with the collaborators as they are at that time, the
  reading of the clock, the session id and the question; the results are collected in
  order.
\<close>

fun chat_calls ::
  "('kb env \<times> string \<times> string \<times> string) list \<Rightarrow> 'kb state
     \<Rightarrow> (exn + chat_response) list \<times> 'kb state" where
  "chat_calls [] s = ([], s)"
| "chat_calls ((env, now, chat_id, question) # calls) s =
     (case get_response env now chat_id question s of
        (r, s1) \<Rightarrow> (case chat_calls calls s1 of (rs, s2) \<Rightarrow> (r # rs, s2)))"

text \<open>
  The history entries of the successful calls on one session, in the order of the calls.
\<close>

definition new_entries ::
  "string \<Rightarrow> ('kb env \<times> string \<times> string \<times> string) list \<Rightarrow> (exn + chat_response) list
     \<Rightarrow> message list" where
  "new_entries chat_id calls rs =
     map (\<lambda>((env, now, cid, question), r).
            \<lparr>user = question, ai = response (projr r), timestamp = now\<rparr>)
       (filter (\<lambda>((env, now, cid, question), r). cid = chat_id \<and> \<not> isl r) (zip calls rs))"

section \<open>A concrete world\<close>

text \<open>
  A small instance of the collaborators, used to run the definitions: a readable file
  of three pages (the middle one without text), a file of two pages without text, an
  index that is the list of its chunks, a search that returns the first \<open>k\<close> chunks,
  and a model with a fixed reply.
\<close>

definition example_env :: "string list env" where
  "example_env =
     \<lparr>pdf_reader = (\<lambda>p. if p = ''uploads/sky.pdf''
                         then Inr [Inr ''The sky is blue. '', Inr [], Inr ''Grass is green.'']
                         else if p = ''uploads/blank.pdf'' then Inr [Inr [], Inr []]
                         else Inl (LibraryError ''No such file or directory'')),
      embed_index = (\<lambda>texts. Inr texts),
      save_error = (\<lambda>p. None),
      has_similarity_search = (\<lambda>kb. True),
      similarity_search = (\<lambda>kb q k. Inr (map Document (take k kb))),
      model_invoke = (\<lambda>prompt. Inr ''Blue.''),
      path_join = (\<lambda>a b. a @ ''/'' @ b),
      path_name = (\<lambda>p. last (split_on (CHR ''/'') p))\<rparr>"

text \<open>The same world, except that the second page of every file cannot be extracted.\<close>

definition damaged_env :: "string list env" where
  "damaged_env =
     example_env\<lparr>pdf_reader :=
       (\<lambda>p. Inr [Inr ''ab'', Inl (LibraryError ''bad page''), Inr ''cd''])\<rparr>"

definition empty_state :: "string list state" where
  "empty_state = \<lparr>chat_storage = Map.empty, disk = Map.empty, trace = []\<rparr>"

definition sky_chat :: "string list PDFChat" where
  "sky_chat =
     \<lparr>knowledge_base = [''The sky is blue. Grass is green.''],
      messages = [],
      metadata = [''file_path'' \<mapsto> ''uploads/sky.pdf'',
                  ''created_at'' \<mapsto> ''2024-01-01T00:00:00'',
                  ''file_name'' \<mapsto> ''sky.pdf''],
      created_at = ''2024-01-01T00:00:01''\<rparr>"

text \<open>
  The world after the ingestion of the file under the identifier \<open>c1\<close>, with the trace
  started again.
\<close>

definition sky_state :: "string list state" where
  "sky_state =
     \<lparr>chat_storage = [''c1'' \<mapsto> sky_chat],
      disk = [''storage/embeddings/c1.faiss'' \<mapsto> Inr [''The sky is blue. Grass is green.'']],
      trace = []\<rparr>"

text \<open>A world with a persisted index for which no session is registered.\<close>

definition orphan_state :: "string list state" where
  "orphan_state =
     \<lparr>chat_storage = Map.empty,
      disk = [''storage/embeddings/c9.faiss'' \<mapsto> Inr [''An orphan chunk.'']],
      trace = []\<rparr>"

text \<open>A question, and the world of \<open>sky_state\<close> with the persisted index unreadable.\<close>

definition sky_question :: string where
  "sky_question = ''What color is the sky?''"

definition sky_corrupt_state :: "string list state" where
  "sky_corrupt_state =
     sky_state\<lparr>disk := [''storage/embeddings/c1.faiss'' \<mapsto> Inl (LibraryError ''bad index'')]\<rparr>"

text \<open>A session whose index has two chunks.\<close>

definition pair_chat :: "string list PDFChat" where
  "pair_chat =
     \<lparr>knowledge_base = [''The sky is blue.'', ''Grass is green.''],
      messages = [],
      metadata = [''file_path'' \<mapsto> ''uploads/pair.pdf'',
                  ''created_at'' \<mapsto> ''2024-01-01T00:00:00'',
                  ''file_name'' \<mapsto> ''pair.pdf''],
      created_at = ''2024-01-01T00:00:01''\<rparr>"

definition pair_state :: "string list state" where
  "pair_state =
     \<lparr>chat_storage = [''c2'' \<mapsto> pair_chat],
      disk = [''storage/embeddings/c2.faiss'' \<mapsto> Inr [''The sky is blue.'', ''Grass is green.'']],
      trace = []\<rparr>"

text \<open>
  The world right after the ingestion of the file under the identifier \<open>c1\<close>, the
  world after one more chat call, and a world with the persisted index of \<open>c1\<close>
  deleted.
\<close>

definition sky_ingested :: "string list state" where
  "sky_ingested =
     snd (process_pdf example_env ''c1'' ''2024-01-01T00:00:00'' ''2024-01-01T00:00:01''
            ''uploads/sky.pdf'' empty_state)"

definition sky_talked :: "string list state" where
  "sky_talked =
     snd (chat_calls [(example_env, ''2024-01-02T10:00:00'', ''c1'', sky_question)] sky_ingested)"

definition sky_index_deleted :: "string list state \<Rightarrow> string list state" where
  "sky_index_deleted s = s\<lparr>disk := (disk s)(''storage/embeddings/c1.faiss'' := None)\<rparr>"

text \<open>
  The same collaborators after the uploaded file has been removed, and after it has
  been overwritten by another upload of the same name (the upload endpoint stores a
  file under its own name).
\<close>

definition missing_env :: "string list env" where
  "missing_env =
     example_env\<lparr>pdf_reader := (\<lambda>p. Inl (LibraryError ''No such file or directory''))\<rparr>"

definition replaced_env :: "string list env" where
  "replaced_env = example_env\<lparr>pdf_reader := (\<lambda>p. Inr [Inr ''Roses are red.''])\<rparr>"

section \<open>Basic facts\<close>

lemma strip_Nil: "strip [] = []"
  by (simp add: strip_def)

lemma strip_eq_Nil_iff: "strip s = [] \<longleftrightarrow> (\<forall>c\<in>set s. isspace c)"
proof -
  have "strip s = [] \<longleftrightarrow> (\<forall>c\<in>set (dropWhile isspace s). isspace c)"
    by (simp add: strip_def)
  also have "\<dots> \<longleftrightarrow> (\<forall>c\<in>set s. isspace c)"
  proof
    assume a: "\<forall>c\<in>set (dropWhile isspace s). isspace c"
    show "\<forall>c\<in>set s. isspace c"
    proof (rule ccontr)
      assume "\<not> (\<forall>c\<in>set s. isspace c)"
      then have ne: "dropWhile isspace s \<noteq> []"
        by simp
      then have "\<not> isspace (hd (dropWhile isspace s))"
        by (rule hd_dropWhile)
      moreover have "hd (dropWhile isspace s) \<in> set (dropWhile isspace s)"
        using ne by simp
      ultimately show False
        using a by blast
    qed
  next
    assume "\<forall>c\<in>set s. isspace c"
    then show "\<forall>c\<in>set (dropWhile isspace s). isspace c"
      using set_dropWhileD by fastforce
  qed
  finally show ?thesis .
qed

lemma split_text_Nil: "split_text [] = Inr []"
  by (simp add: split_text_def CharacterTextSplitter_split_text_def split_text_with_regex_def
      merge_splits_def join_docs_def strip_def)

lemma split_text_sky:
  "split_text ''The sky is blue. Grass is green.'' = Inr [''The sky is blue. Grass is green.'']"
  by (simp add: split_text_def CharacterTextSplitter_split_text_def split_text_with_regex_def
      merge_splits_def join_docs_def strip_def isspace_def add_piece_def Let_def)

subsection \<open>The steps of the ingestor\<close>

lemma extract_text_from_pdf_storage:
  "chat_storage (snd (extract_text_from_pdf env file_path s)) = chat_storage s"
  by (auto simp: extract_text_from_pdf_def reraise_def emit_def Let_def split: sum.splits)

lemma create_knowledge_base_storage:
  "chat_storage (snd (create_knowledge_base env body s)) = chat_storage s"
  by (auto simp: create_knowledge_base_def FAISS_from_texts_def reraise_def emit_def Let_def
      split: sum.splits)

lemma save_knowledge_base_storage:
  "chat_storage (snd (save_knowledge_base env chat_id kb s)) = chat_storage s"
  by (auto simp: save_knowledge_base_def FAISS_save_local_def reraise_def emit_def Let_def
      split: sum.splits option.splits)

lemma create_knowledge_base_empty:
  "create_knowledge_base env [] s =
     (Inl (RuntimeError ''Failed to create knowledge base: list index out of range''),
      emit (FromTexts []) s)"
  by (simp add: create_knowledge_base_def split_text_Nil FAISS_from_texts_def reraise_def)

lemma extract_text_from_pdf_result:
  "pdf_reader env file_path = Inr pages \<Longrightarrow> join_pages pages = Inr body \<Longrightarrow>
   extract_text_from_pdf env file_path s = (Inr body, emit (OpenPdf file_path) s)"
  by (simp add: extract_text_from_pdf_def reraise_def)

lemma join_pages_all_texts:
  "\<forall>p\<in>set pages. \<not> isl p \<Longrightarrow>
   join_pages pages = Inr (concat (filter (\<lambda>t. t \<noteq> []) (map projr pages)))"
proof (induction pages)
  case Nil
  show ?case by simp
next
  case (Cons p pages)
  then obtain t where "p = Inr t"
    by (cases p) auto
  with Cons show ?case by simp
qed

lemma join_pages_raises:
  "\<exists>p\<in>set pages. isl p \<Longrightarrow> \<exists>e. Inl e \<in> set pages \<and> join_pages pages = Inl e"
proof (induction pages)
  case Nil
  then show ?case by simp
next
  case (Cons p pages)
  show ?case
  proof (cases p)
    case (Inl e)
    then show ?thesis by auto
  next
    case (Inr t)
    with Cons.prems have "\<exists>p\<in>set pages. isl p"
      by auto
    then obtain e where "Inl e \<in> set pages" "join_pages pages = Inl e"
      using Cons.IH by blast
    with Inr show ?thesis by auto
  qed
qed

subsection \<open>The knowledge base store\<close>

lemma load_knowledge_base_present:
  "disk s (embedding_path env chat_id) = Some (Inr kb) \<Longrightarrow>
   load_knowledge_base env chat_id s =
     (Inr (Some kb), s\<lparr>trace := trace s @ [PathExists (embedding_path env chat_id),
                                            LoadLocal (embedding_path env chat_id)]\<rparr>)"
  by (simp add: load_knowledge_base_def reraise_def and_then_def FAISS_load_local_def emit_def
      Let_def dom_def)

lemma load_knowledge_base_absent:
  "disk s (embedding_path env chat_id) = None \<Longrightarrow>
   load_knowledge_base env chat_id s =
     (Inr None, s\<lparr>trace := trace s @ [PathExists (embedding_path env chat_id)]\<rparr>)"
  by (simp add: load_knowledge_base_def reraise_def and_then_def emit_def Let_def dom_def)

section \<open>Ingestion\<close>

text \<open>
  Claim C3. An ingestion call that fails, at whichever step, leaves the session
  registry as it was: no session is registered by the call. In particular, when the
  text extracted from the PDF is empty, the call fails with a processing error (a
  \<open>RuntimeError\<close>) and the registry is unchanged.
\<close>

theorem process_pdf_failure_registers_nothing:
  "(\<forall>e. fst (process_pdf env chat_id now_metadata now_created file_path s) = Inl e \<longrightarrow>
      chat_storage (snd (process_pdf env chat_id now_metadata now_created file_path s))
        = chat_storage s)
   \<and> (\<forall>pages. pdf_reader env file_path = Inr pages \<and> join_pages pages = Inr [] \<longrightarrow>
      (\<exists>m. fst (process_pdf env chat_id now_metadata now_created file_path s)
              = Inl (RuntimeError m))
      \<and> chat_storage (snd (process_pdf env chat_id now_metadata now_created file_path s))
        = chat_storage s)"
proof (intro conjI allI impI)
  fix e
  assume f: "fst (process_pdf env chat_id now_metadata now_created file_path s) = Inl e"
  obtain r1 s1 where e1: "extract_text_from_pdf env file_path s = (r1, s1)"
    by force
  have c1: "chat_storage s1 = chat_storage s"
    using extract_text_from_pdf_storage [of env file_path s] e1 by simp
  show "chat_storage (snd (process_pdf env chat_id now_metadata now_created file_path s))
        = chat_storage s"
  proof (cases r1)
    case (Inl a)
    then show ?thesis
      using e1 c1 by (simp add: process_pdf_def reraise_def and_then_def)
  next
    case (Inr body)
    obtain r2 s2 where e2: "create_knowledge_base env body s1 = (r2, s2)"
      by force
    have c2: "chat_storage s2 = chat_storage s1"
      using create_knowledge_base_storage [of env body s1] e2 by simp
    show ?thesis
    proof (cases r2)
      case (Inl a)
      then show ?thesis
        using e1 c1 e2 c2 Inr by (simp add: process_pdf_def reraise_def and_then_def)
    next
      case kb: (Inr kb)
      obtain r3 s3 where e3: "save_knowledge_base env chat_id kb s2 = (r3, s3)"
        by force
      have c3: "chat_storage s3 = chat_storage s2"
        using save_knowledge_base_storage [of env chat_id kb s2] e3 by simp
      show ?thesis
      proof (cases r3)
        case (Inl a)
        then show ?thesis
          using e1 c1 e2 c2 e3 c3 Inr kb
          by (simp add: process_pdf_def reraise_def and_then_def)
      next
        case u: (Inr u)
        then have False
          using f e1 e2 e3 Inr kb
          by (simp add: process_pdf_def reraise_def and_then_def)
        then show ?thesis ..
      qed
    qed
  qed
next
  fix pages
  assume a: "pdf_reader env file_path = Inr pages \<and> join_pages pages = Inr []"
  have p: "process_pdf env chat_id now_metadata now_created file_path s =
        (Inl (RuntimeError
           (''Failed to process PDF: '' @
            ''Failed to create knowledge base: list index out of range'')),
         emit (FromTexts []) (emit (OpenPdf file_path) s))"
    using a
    by (simp add: process_pdf_def reraise_def and_then_def extract_text_from_pdf_result
        create_knowledge_base_empty)
  show "\<exists>m. fst (process_pdf env chat_id now_metadata now_created file_path s)
              = Inl (RuntimeError m)"
    using p by simp
  show "chat_storage (snd (process_pdf env chat_id now_metadata now_created file_path s))
        = chat_storage s"
    using p by (simp add: emit_def)
qed

theorem process_pdf_failure_registers_nothing_witness:
  "pdf_reader example_env ''uploads/blank.pdf'' = Inr [Inr [], Inr []]
   \<and> join_pages [Inr [], Inr []] = Inr []
   \<and> (\<exists>m. fst (process_pdf example_env ''c2'' ''2024-01-03T08:00:00'' ''2024-01-03T08:00:01''
                  ''uploads/blank.pdf'' sky_state) = Inl (RuntimeError m))
   \<and> chat_storage (snd (process_pdf example_env ''c2'' ''2024-01-03T08:00:00''
          ''2024-01-03T08:00:01'' ''uploads/blank.pdf'' sky_state)) = chat_storage sky_state
   \<and> chat_storage sky_state ''c2'' = None"
  using process_pdf_failure_registers_nothing [of example_env "''c2''" "''2024-01-03T08:00:00''"
          "''2024-01-03T08:00:01''" "''uploads/blank.pdf''" sky_state]
  by (simp add: example_env_def sky_state_def)

text \<open>
  Claim C5, as amended. Text extraction proceeds page by page. When no page raises, the
  result is the concatenation, in page order, of the non-empty extracted texts: a page
  that yields no text is skipped. When the extraction of some page raises, the page is
  not skipped: the whole extraction fails with a \<open>RuntimeError\<close> that carries the
  message of that page's exception.
\<close>

theorem extract_text_page_by_page:
  assumes "pdf_reader env file_path = Inr pages"
  shows "((\<forall>p\<in>set pages. \<not> isl p) \<longrightarrow>
            fst (extract_text_from_pdf env file_path s)
              = Inr (concat (filter (\<lambda>t. t \<noteq> []) (map projr pages))))
       \<and> ((\<exists>p\<in>set pages. isl p) \<longrightarrow>
            (\<exists>e. Inl e \<in> set pages \<and> fst (extract_text_from_pdf env file_path s)
              = Inl (RuntimeError (''Failed to extract text from PDF: '' @ str_exn e))))"
proof (intro conjI impI)
  assume "\<forall>p\<in>set pages. \<not> isl p"
  then show "fst (extract_text_from_pdf env file_path s)
              = Inr (concat (filter (\<lambda>t. t \<noteq> []) (map projr pages)))"
    using assms by (simp add: extract_text_from_pdf_def reraise_def join_pages_all_texts)
next
  assume "\<exists>p\<in>set pages. isl p"
  then obtain e where "Inl e \<in> set pages" "join_pages pages = Inl e"
    using join_pages_raises by blast
  then show "\<exists>e. Inl e \<in> set pages \<and> fst (extract_text_from_pdf env file_path s)
              = Inl (RuntimeError (''Failed to extract text from PDF: '' @ str_exn e))"
    using assms by (auto simp: extract_text_from_pdf_def reraise_def)
qed

theorem extract_text_page_by_page_witness:
  "pdf_reader example_env ''uploads/sky.pdf''
     = Inr [Inr ''The sky is blue. '', Inr [], Inr ''Grass is green.'']
   \<and> fst (extract_text_from_pdf example_env ''uploads/sky.pdf'' empty_state)
     = Inr ''The sky is blue. Grass is green.''
   \<and> pdf_reader damaged_env ''uploads/doc.pdf''
     = Inr [Inr ''ab'', Inl (LibraryError ''bad page''), Inr ''cd'']
   \<and> fst (extract_text_from_pdf damaged_env ''uploads/doc.pdf'' empty_state)
     = Inl (RuntimeError ''Failed to extract text from PDF: bad page'')"
  using extract_text_page_by_page [of example_env "''uploads/sky.pdf''"
          "[Inr ''The sky is blue. '', Inr [], Inr ''Grass is green.'']" empty_state]
        extract_text_page_by_page [of damaged_env "''uploads/doc.pdf''"
          "[Inr ''ab'', Inl (LibraryError ''bad page''), Inr ''cd'']" empty_state]
  by (auto simp: example_env_def damaged_env_def)

text \<open>
  Claim C5 as stated fails: in a file whose second page raises on extraction, the page
  is not skipped. The result is not the text of the remaining pages but an error.
\<close>

theorem extract_text_failing_page_aborts:
  "fst (extract_text_from_pdf damaged_env ''uploads/doc.pdf'' empty_state)
     = Inl (RuntimeError ''Failed to extract text from PDF: bad page'')
   \<and> fst (extract_text_from_pdf damaged_env ''uploads/doc.pdf'' empty_state) \<noteq> Inr ''abcd''"
  by (simp add: extract_text_from_pdf_def damaged_env_def example_env_def reraise_def)

section \<open>Resolution of the knowledge base\<close>

text \<open>
  Claim C10. When an index is persisted at the path of an identifier,
  \<open>get_or_create_knowledge_base\<close> returns that index, whatever the session registry
  holds: the registry is not read (the only calls are the test of the path and the
  load). When nothing is persisted at the path and no session with a non-empty stored file
  path is registered under the identifier, the result is \<open>None\<close>, not an exception.
\<close>

theorem get_or_create_knowledge_base_lookup:
  "(disk s (embedding_path env chat_id) = Some (Inr kb) \<longrightarrow>
      get_or_create_knowledge_base env chat_id s =
        (Inr (Some kb), s\<lparr>trace := trace s @ [PathExists (embedding_path env chat_id),
                                               LoadLocal (embedding_path env chat_id)]\<rparr>))
   \<and> (disk s (embedding_path env chat_id) = None \<and>
       (\<forall>chat_data file_path. chat_storage s chat_id = Some chat_data \<and>
            metadata chat_data ''file_path'' = Some file_path \<longrightarrow> file_path = []) \<longrightarrow>
      get_or_create_knowledge_base env chat_id s =
        (Inr None, s\<lparr>trace := trace s @ [PathExists (embedding_path env chat_id),
                                        RegistryGet chat_id]\<rparr>))"
  by (auto simp: get_or_create_knowledge_base_def reraise_def and_then_def
      load_knowledge_base_present load_knowledge_base_absent emit_def Let_def
      split: option.splits)

theorem get_or_create_knowledge_base_lookup_witness:
  "chat_storage orphan_state ''c9'' = None
   \<and> disk orphan_state (embedding_path example_env ''c9'') = Some (Inr [''An orphan chunk.''])
   \<and> fst (get_or_create_knowledge_base example_env ''c9'' orphan_state)
       = Inr (Some [''An orphan chunk.''])
   \<and> trace (snd (get_or_create_knowledge_base example_env ''c9'' orphan_state))
       = [PathExists ''storage/embeddings/c9.faiss'', LoadLocal ''storage/embeddings/c9.faiss'']
   \<and> disk empty_state (embedding_path example_env ''c9'') = None
   \<and> chat_storage empty_state ''c9'' = None
   \<and> fst (get_or_create_knowledge_base example_env ''c9'' empty_state) = Inr None"
  using get_or_create_knowledge_base_lookup [of orphan_state example_env "''c9''"
          "[''An orphan chunk.'']"]
        get_or_create_knowledge_base_lookup [of empty_state example_env "''c9''" "[]"]
  by (simp add: orphan_state_def empty_state_def example_env_def embedding_path_def
      embeddings_dir_def)

section \<open>Validation of the inputs of a chat call\<close>

text \<open>
  Claim C8. When the session id or the question of a chat call is the empty string, the
  call fails with an input error (a \<open>ValueError\<close> with the message of the first check
  that fails), and the world is unchanged: in particular the trace is, so the registry
  has not been read, nothing has been searched and the model has not been invoked.
\<close>

theorem get_response_empty_input:
  assumes "chat_id = [] \<or> user_question = []"
  shows "get_response env now chat_id user_question s =
           (Inl (ValueError (if strip chat_id = [] then ''Invalid chat ID''
                             else ''Invalid user question'')), s)"
  using assms by (auto simp: get_response_def get_response_body_def strip_Nil)

theorem get_response_empty_input_witness:
  "get_response example_env ''2024-01-02T10:00:00'' [] ''What color is the sky?'' sky_state
     = (Inl (ValueError ''Invalid chat ID''), sky_state)
   \<and> get_response example_env ''2024-01-02T10:00:00'' ''c1'' [] sky_state
     = (Inl (ValueError ''Invalid user question''), sky_state)"
  using get_response_empty_input [of "[]" "''What color is the sky?''" example_env
          "''2024-01-02T10:00:00''" sky_state]
        get_response_empty_input [of "''c1''" "[]" example_env "''2024-01-02T10:00:00''" sky_state]
  by (simp add: strip_def isspace_def)

text \<open>
  Claim C9. A session id that consists of whitespace characters only is rejected like
  the empty session id, and a question that consists of whitespace characters only
  like the empty question: the call fails with the same \<open>ValueError\<close>, and the world
  is unchanged.
\<close>

theorem get_response_blank_input:
  "((\<forall>c\<in>set chat_id. isspace c) \<longrightarrow>
      get_response env now chat_id user_question s = (Inl (ValueError ''Invalid chat ID''), s)
      \<and> get_response env now chat_id user_question s = get_response env now [] user_question s)
   \<and> ((\<forall>c\<in>set user_question. isspace c) \<longrightarrow>
      (\<exists>m. get_response env now chat_id user_question s = (Inl (ValueError m), s))
      \<and> get_response env now chat_id user_question s = get_response env now chat_id [] s)"
  by (auto simp: get_response_def get_response_body_def strip_Nil strip_eq_Nil_iff)

theorem get_response_blank_input_witness:
  "list_all isspace [CHR '' '', CHR 0x09]
   \<and> get_response example_env ''2024-01-02T10:00:00'' [CHR '' '', CHR 0x09]
         ''What color is the sky?'' sky_state
       = (Inl (ValueError ''Invalid chat ID''), sky_state)
   \<and> list_all isspace [NL, CHR '' '']
   \<and> get_response example_env ''2024-01-02T10:00:00'' ''c1'' [NL, CHR '' ''] sky_state
       = (Inl (ValueError ''Invalid user question''), sky_state)"
  using get_response_blank_input [of "[CHR '' '', CHR 0x09]" example_env
          "''2024-01-02T10:00:00''" "''What color is the sky?''" sky_state]
        get_response_blank_input [of "''c1''" example_env "''2024-01-02T10:00:00''"
          "[NL, CHR '' '']" sky_state]
  by (simp add: isspace_def strip_def get_response_def get_response_body_def)

section \<open>The conversation engine, case by case\<close>

subsection \<open>Sequencing\<close>

lemma store_step_refl: "store_step s s"
  by (simp add: store_step_def)

lemma store_step_trans: "store_step s s1 \<Longrightarrow> store_step s1 s2 \<Longrightarrow> store_step s s2"
  by (auto simp: store_step_def)

lemma store_step_emit: "store_event ev \<Longrightarrow> store_step s (emit ev s)"
  by (simp add: store_step_def emit_def)

lemma and_then_cases:
  assumes "and_then m f s = (r, s')"
  obtains (fails) e where "m s = (Inl e, s')" "r = Inl e"
        | (continues) x s1 where "m s = (Inr x, s1)" "f x s1 = (r, s')"
proof (cases "m s")
  case (Pair a s1)
  show ?thesis
  proof (cases a)
    case (Inl e)
    with Pair assms fails show ?thesis by (simp add: and_then_def)
  next
    case (Inr x)
    with Pair assms continues show ?thesis by (simp add: and_then_def)
  qed
qed

lemma reraise_cases:
  assumes "reraise msg m s = (r, s')"
  obtains (fails) e where "m s = (Inl e, s')" "r = Inl (RuntimeError (msg @ '': '' @ str_exn e))"
        | (returns) x where "m s = (Inr x, s')" "r = Inr x"
proof (cases "m s")
  case (Pair a s1)
  show ?thesis
  proof (cases a)
    case (Inl e)
    with Pair assms fails show ?thesis by (auto simp: reraise_def)
  next
    case (Inr x)
    with Pair assms returns show ?thesis by (auto simp: reraise_def)
  qed
qed

subsection \<open>What each step of the store does\<close>

lemma extract_step:
  "extract_text_from_pdf env file_path s = (r, s') \<Longrightarrow>
   s' = emit (OpenPdf file_path) s \<and> (\<forall>e. r = Inl e \<longrightarrow> (\<exists>m. e = RuntimeError m))"
  by (auto simp: extract_text_from_pdf_def reraise_def Let_def split: sum.splits)

lemma create_step:
  "create_knowledge_base env body s = (r, s') \<Longrightarrow>
   (\<exists>chunks. split_text body = Inr chunks \<and> s' = emit (FromTexts chunks) s \<or> s' = s) \<and>
   (\<forall>e. r = Inl e \<longrightarrow> (\<exists>m. e = RuntimeError m))"
  by (auto simp: create_knowledge_base_def FAISS_from_texts_def reraise_def Let_def
      split: sum.splits if_splits)

lemma save_step:
  "save_knowledge_base env chat_id kb s = (r, s') \<Longrightarrow>
   (\<forall>e. r = Inl e \<longrightarrow>
      (\<exists>m. e = RuntimeError m) \<and> s' = emit (SaveLocal (embedding_path env chat_id)) s) \<and>
   (\<forall>u. r = Inr u \<longrightarrow> save_error env (embedding_path env chat_id) = None \<and>
      s' = (emit (SaveLocal (embedding_path env chat_id)) s)
             \<lparr>disk := (disk s)(embedding_path env chat_id \<mapsto> Inr kb)\<rparr>)"
  by (auto simp: save_knowledge_base_def FAISS_save_local_def reraise_def Let_def emit_def
      split: sum.splits option.splits)

lemma load_step:
  "load_knowledge_base env chat_id s = (r, s') \<Longrightarrow>
   store_step s s' \<and> disk s' = disk s \<and>
   (case disk s (embedding_path env chat_id) of
      None \<Rightarrow> r = Inr None
    | Some (Inl e) \<Rightarrow> (\<exists>m. r = Inl (RuntimeError m))
    | Some (Inr kb) \<Rightarrow> r = Inr (Some kb))"
  by (auto simp: load_knowledge_base_def FAISS_load_local_def reraise_def and_then_def Let_def
      emit_def store_step_def store_event_def dom_def split: sum.splits option.splits if_splits)


lemma rebuild_step:
  assumes "and_then (extract_text_from_pdf env file_path) (\<lambda>body.
           and_then (create_knowledge_base env body) (\<lambda>kb.
           and_then (save_knowledge_base env chat_id kb) (\<lambda>_ s'. (Inr (Some kb), s')))) s = (r, s')"
  shows "store_step s s' \<and> ((\<exists>m. r = Inl (RuntimeError m)) \<or>
           (\<exists>kb. r = Inr (Some kb) \<and> disk s' (embedding_path env chat_id) = Some (Inr kb)))"
  using assms
proof (cases rule: and_then_cases)
  case (fails e)
  then show ?thesis
    using extract_step [of env file_path s "Inl e" s']
    by (auto simp: store_step_emit store_event_def)
next
  case (continues body s1)
  have s1: "store_step s s1"
    using extract_step [OF continues(1)] by (simp add: store_step_emit store_event_def)
  from continues(2) show ?thesis
  proof (cases rule: and_then_cases)
    case (fails e)
    have "store_step s1 s'"
      using create_step [OF fails(1)] by (auto simp: store_step_emit store_event_def store_step_refl)
    then show ?thesis
      using s1 fails create_step [OF fails(1)] store_step_trans by blast
  next
    case (continues kb s2)
    have s2: "store_step s1 s2"
      using create_step [OF continues(1)] by (auto simp: store_step_emit store_event_def store_step_refl)
    from continues(2) show ?thesis
    proof (cases rule: and_then_cases)
      case (fails e)
      have "store_step s2 s'"
        using save_step [OF fails(1)] by (auto simp: store_step_emit store_event_def)
      then show ?thesis
        using s1 s2 fails save_step [OF fails(1)] store_step_trans by blast
    next
      case (continues u s3)
      have "store_step s2 s3" "disk s3 (embedding_path env chat_id) = Some (Inr kb)"
        using save_step [OF continues(1)] by (auto simp: store_step_def emit_def store_event_def)
      then have "store_step s s'" "r = Inr (Some kb)"
          "disk s' (embedding_path env chat_id) = Some (Inr kb)"
        using s1 s2 continues store_step_trans [OF s1 store_step_trans [OF s2]] by auto
      then show ?thesis by blast
    qed
  qed
qed

lemma get_or_create_cases:
  assumes "get_or_create_knowledge_base env chat_id s = (r, s')"
  shows "store_step s s'"
    and "\<And>e. r = Inl e \<Longrightarrow> \<exists>m. e = RuntimeError m"
    and "r = Inr None \<longleftrightarrow>
           disk s (embedding_path env chat_id) = None \<and>
           (\<forall>chat_data file_path. chat_storage s chat_id = Some chat_data \<and>
              metadata chat_data ''file_path'' = Some file_path \<longrightarrow> file_path = [])"
    and "\<And>kb. r = Inr (Some kb) \<Longrightarrow> disk s' (embedding_path env chat_id) = Some (Inr kb)"
proof -
  let ?inner = "and_then (load_knowledge_base env chat_id) (\<lambda>loaded.
          case loaded of
            Some kb \<Rightarrow> (\<lambda>s. (Inr (Some kb), s))
          | None \<Rightarrow>
              (\<lambda>s. let s1 = emit (RegistryGet chat_id) s in
                 case chat_storage s1 chat_id of
                   None \<Rightarrow> (Inr None, s1)
                 | Some chat_data \<Rightarrow>
                     (case metadata chat_data ''file_path'' of
                        None \<Rightarrow> (Inr None, s1)
                      | Some file_path \<Rightarrow>
                          if file_path = [] then (Inr None, s1)
                          else
                            and_then (extract_text_from_pdf env file_path) (\<lambda>text.
                            and_then (create_knowledge_base env text) (\<lambda>kb.
                            and_then (save_knowledge_base env chat_id kb) (\<lambda>_ s'.
                              (Inr (Some kb), s')))) s1)))"
  let ?P = "disk s (embedding_path env chat_id) = None \<and>
           (\<forall>chat_data file_path. chat_storage s chat_id = Some chat_data \<and>
              metadata chat_data ''file_path'' = Some file_path \<longrightarrow> file_path = [])"
  have r: "reraise ''Failed to retrieve knowledge base'' ?inner s = (r, s')"
    using assms by (simp add: get_or_create_knowledge_base_def)
  have all: "store_step s s' \<and> (\<forall>e. r = Inl e \<longrightarrow> (\<exists>m. e = RuntimeError m)) \<and>
     (r = Inr None \<longleftrightarrow> ?P) \<and>
     (\<forall>kb. r = Inr (Some kb) \<longrightarrow> disk s' (embedding_path env chat_id) = Some (Inr kb))"
  proof -
    obtain r0 where inner: "?inner s = (r0, s')"
      and r0: "(case r0 of Inl e \<Rightarrow> \<exists>m. r = Inl (RuntimeError m) | Inr x \<Rightarrow> r = Inr x)"
      using r by (cases rule: reraise_cases) auto
    from inner show ?thesis
    proof (cases rule: and_then_cases)
      case (fails e)
      then show ?thesis
        using load_step [OF fails(1)] r0 by (auto split: option.splits sum.splits)
    next
      case (continues loaded s1)
      note l = load_step [OF continues(1)]
      show ?thesis
      proof (cases loaded)
        case (Some kb)
        then show ?thesis
          using continues l r0 by (auto split: option.splits sum.splits)
      next
        case None
        then have d: "disk s (embedding_path env chat_id) = None"
          using l by (auto split: option.splits sum.splits)
        let ?s2 = "emit (RegistryGet chat_id) s1"
        have s2: "store_step s ?s2"
          using l store_step_emit [of "RegistryGet chat_id" s1] store_step_trans
          by (auto simp: store_event_def)
        have cs: "chat_storage ?s2 = chat_storage s"
          using s2 by (simp add: store_step_def)
        show ?thesis
        proof (cases "\<exists>chat_data file_path. chat_storage s chat_id = Some chat_data \<and>
              metadata chat_data ''file_path'' = Some file_path \<and> file_path \<noteq> []")
          case True
          then obtain chat_data file_path where c: "chat_storage s chat_id = Some chat_data"
              "metadata chat_data ''file_path'' = Some file_path" "file_path \<noteq> []"
            by blast
          have "and_then (extract_text_from_pdf env file_path) (\<lambda>body.
           and_then (create_knowledge_base env body) (\<lambda>kb.
           and_then (save_knowledge_base env chat_id kb) (\<lambda>_ s'. (Inr (Some kb), s')))) ?s2 = (r0, s')"
            using continues(2) None c cs by (simp add: Let_def)
          from rebuild_step [OF this] show ?thesis
            using s2 store_step_trans r0 c by (auto split: sum.splits)
        next
          case False
          then have "r0 = Inr None \<and> s' = ?s2"
            using continues(2) None cs by (auto simp: Let_def split: option.splits if_splits)
          then show ?thesis
            using s2 r0 d False by auto
        qed
      qed
    qed
  qed
  from all show "store_step s s'" by simp
  from all show "\<And>e. r = Inl e \<Longrightarrow> \<exists>m. e = RuntimeError m" by simp
  from all show "r = Inr None \<longleftrightarrow> ?P" by simp
  from all show "\<And>kb. r = Inr (Some kb) \<Longrightarrow> disk s' (embedding_path env chat_id) = Some (Inr kb)" by simp
qed


lemma get_or_create_present:
  "disk s (embedding_path env chat_id) = Some (Inr kb) \<Longrightarrow>
   get_or_create_knowledge_base env chat_id s =
     (Inr (Some kb), s\<lparr>trace := trace s @ [PathExists (embedding_path env chat_id),
                                            LoadLocal (embedding_path env chat_id)]\<rparr>)"
  by (simp add: get_or_create_knowledge_base_def reraise_def and_then_def
      load_knowledge_base_present)

lemma get_or_create_rebuild:
  assumes "chat_storage s chat_id = Some chat_data"
    and "metadata chat_data ''file_path'' = Some file_path" "file_path \<noteq> []"
    and "disk s (embedding_path env chat_id) = None"
    and "pdf_reader env file_path = Inr pages" "join_pages pages = Inr body"
    and "split_text body = Inr chunks" "chunks \<noteq> []" "embed_index env chunks = Inr kb"
    and "save_error env (embedding_path env chat_id) = None"
  shows "get_or_create_knowledge_base env chat_id s =
           (Inr (Some kb),
            s\<lparr>disk := (disk s)(embedding_path env chat_id \<mapsto> Inr kb),
              trace := trace s @
                [PathExists (embedding_path env chat_id), RegistryGet chat_id,
                 OpenPdf file_path, FromTexts chunks,
                 SaveLocal (embedding_path env chat_id)]\<rparr>)"
proof -
  let ?p = "embedding_path env chat_id"
  let ?s1 = "s\<lparr>trace := trace s @ [PathExists ?p]\<rparr>"
  let ?s2 = "emit (RegistryGet chat_id) ?s1"
  have l: "load_knowledge_base env chat_id s = (Inr None, ?s1)"
    using assms(4) by (rule load_knowledge_base_absent)
  have e: "extract_text_from_pdf env file_path ?s2 = (Inr body, emit (OpenPdf file_path) ?s2)"
    using assms(5,6) by (rule extract_text_from_pdf_result)
  have c: "create_knowledge_base env body (emit (OpenPdf file_path) ?s2)
      = (Inr kb, emit (FromTexts chunks) (emit (OpenPdf file_path) ?s2))"
    using assms(7,8,9) by (simp add: create_knowledge_base_def FAISS_from_texts_def reraise_def)
  have sv: "save_knowledge_base env chat_id kb (emit (FromTexts chunks) (emit (OpenPdf file_path) ?s2))
      = (Inr (), s\<lparr>disk := (disk s)(?p \<mapsto> Inr kb),
              trace := trace s @
                [PathExists ?p, RegistryGet chat_id, OpenPdf file_path, FromTexts chunks,
                 SaveLocal ?p]\<rparr>)"
    using assms(10)
    by (simp add: save_knowledge_base_def FAISS_save_local_def reraise_def emit_def)
  have cs: "chat_storage ?s2 chat_id = Some chat_data"
    using assms(1) by (simp add: emit_def)
  show ?thesis
    using l e c sv cs assms(2,3)
    by (simp add: get_or_create_knowledge_base_def reraise_def and_then_def Let_def)
qed


subsection \<open>The workflow\<close>

lemma search_chunks_result:
  "search_chunks env \<lparr>state_messages = [q], state_context = c\<rparr> kb s =
     (if \<not> has_similarity_search env kb
      then (Inl (RuntimeError (''Failed to search document chunks: '' @ ''Invalid knowledge base format'')), s)
      else (case similarity_search env kb q default_k of
              Inl e \<Rightarrow> Inl (RuntimeError (''Failed to search document chunks: '' @ str_exn e))
            | Inr docs \<Rightarrow>
                if list_all has_page_content docs
                then Inr \<lparr>state_messages = [q], state_context = join '' '' (map page_content docs)\<rparr>
                else Inl (RuntimeError (''Failed to search document chunks: '' @
                            ''Invalid document format in knowledge base'')),
            emit (SimilaritySearch q default_k) s))"
  by (simp add: search_chunks_def reraise_def last_item_def Let_def split: sum.splits)

lemma call_model_result:
  "call_model env \<lparr>state_messages = [q], state_context = c\<rparr> s =
     (case model_invoke env (combined_input c q) of
        Inl e \<Rightarrow> Inl (RuntimeError (''Failed to generate model response: '' @ str_exn e))
      | Inr reply \<Rightarrow> Inr \<lparr>state_messages = [q, reply], state_context = c\<rparr>,
      emit (ModelInvoke (combined_input c q)) s)"
  by (simp add: call_model_def reraise_def last_item_def Let_def split: sum.splits)

lemma stream_workflow_cases:
  assumes "stream_workflow env kb \<lparr>state_messages = [q], state_context = []\<rparr> s = (r, s')"
  obtains (fails) m evs where "r = Inl (RuntimeError m)" "s' = s\<lparr>trace := trace s @ evs\<rparr>"
  | (answers) docs reply where
      "has_similarity_search env kb"
      "similarity_search env kb q default_k = Inr docs"
      "list_all has_page_content docs"
      "model_invoke env (combined_input (join '' '' (map page_content docs)) q) = Inr reply"
      "r = Inr [\<lparr>state_messages = [q], state_context = []\<rparr>,
                \<lparr>state_messages = [q], state_context = join '' '' (map page_content docs)\<rparr>,
                \<lparr>state_messages = [q, reply],
                 state_context = join '' '' (map page_content docs)\<rparr>]"
      "s' = s\<lparr>trace := trace s @
               [SimilaritySearch q default_k,
                ModelInvoke (combined_input (join '' '' (map page_content docs)) q)]\<rparr>"
proof (cases "has_similarity_search env kb")
  case False
  then have "r = Inl (RuntimeError (''Failed to search document chunks: '' @ ''Invalid knowledge base format''))"
      "s' = s\<lparr>trace := trace s @ []\<rparr>"
    using assms by (simp_all add: stream_workflow_def and_then_def search_chunks_result)
  then show ?thesis using fails by blast
next
  case h: True
  show ?thesis
  proof (cases "similarity_search env kb q default_k")
    case (Inl e)
    then have "r = Inl (RuntimeError (''Failed to search document chunks: '' @ str_exn e))"
      "s' = s\<lparr>trace := trace s @ [SimilaritySearch q default_k]\<rparr>"
      using assms h by (simp_all add: stream_workflow_def and_then_def search_chunks_result emit_def)
    then show ?thesis using fails by blast
  next
    case (Inr docs)
    show ?thesis
    proof (cases "list_all has_page_content docs")
      case False
      then have "r = Inl (RuntimeError (''Failed to search document chunks: '' @
                            ''Invalid document format in knowledge base''))"
        "s' = s\<lparr>trace := trace s @ [SimilaritySearch q default_k]\<rparr>"
        using assms h Inr
        by (simp_all add: stream_workflow_def and_then_def search_chunks_result emit_def)
      then show ?thesis using fails by blast
    next
      case d: True
      let ?c = "join '' '' (map page_content docs)"
      show ?thesis
      proof (cases "model_invoke env (combined_input ?c q)")
        case (Inl e)
        then have "r = Inl (RuntimeError (''Failed to generate model response: '' @ str_exn e))"
          "s' = s\<lparr>trace := trace s @ [SimilaritySearch q default_k, ModelInvoke (combined_input ?c q)]\<rparr>"
          using assms h Inr d
          by (simp_all add: stream_workflow_def and_then_def search_chunks_result
              call_model_result emit_def)
        then show ?thesis using fails by blast
      next
        case reply: (Inr reply)
        have "r = Inr [\<lparr>state_messages = [q], state_context = []\<rparr>,
                \<lparr>state_messages = [q], state_context = ?c\<rparr>,
                \<lparr>state_messages = [q, reply], state_context = ?c\<rparr>]"
          "s' = s\<lparr>trace := trace s @ [SimilaritySearch q default_k, ModelInvoke (combined_input ?c q)]\<rparr>"
          using assms h Inr d reply
          by (simp_all add: stream_workflow_def and_then_def search_chunks_result
              call_model_result emit_def)
        then show ?thesis using answers h Inr d reply by blast
      qed
    qed
  qed
qed


lemma stream_workflow_uniform:
  "\<exists>r evs. \<forall>s. stream_workflow env kb \<lparr>state_messages = [q], state_context = []\<rparr> s
      = (r, s\<lparr>trace := trace s @ evs\<rparr>)"
proof (cases "has_similarity_search env kb")
  case False
  then have "\<forall>s. stream_workflow env kb \<lparr>state_messages = [q], state_context = []\<rparr> s
      = (Inl (RuntimeError (''Failed to search document chunks: '' @ ''Invalid knowledge base format'')),
         s\<lparr>trace := trace s @ []\<rparr>)"
    by (simp add: stream_workflow_def and_then_def search_chunks_result)
  then show ?thesis by blast
next
  case h: True
  show ?thesis
  proof (cases "similarity_search env kb q default_k")
    case (Inl e)
    then have "\<forall>s. stream_workflow env kb \<lparr>state_messages = [q], state_context = []\<rparr> s
      = (Inl (RuntimeError (''Failed to search document chunks: '' @ str_exn e)),
         s\<lparr>trace := trace s @ [SimilaritySearch q default_k]\<rparr>)"
      using h by (simp add: stream_workflow_def and_then_def search_chunks_result emit_def)
    then show ?thesis by blast
  next
    case (Inr docs)
    show ?thesis
    proof (cases "list_all has_page_content docs")
      case False
      then have "\<forall>s. stream_workflow env kb \<lparr>state_messages = [q], state_context = []\<rparr> s
        = (Inl (RuntimeError (''Failed to search document chunks: '' @
                            ''Invalid document format in knowledge base'')),
           s\<lparr>trace := trace s @ [SimilaritySearch q default_k]\<rparr>)"
        using h Inr by (simp add: stream_workflow_def and_then_def search_chunks_result emit_def)
      then show ?thesis by blast
    next
      case d: True
      let ?c = "join '' '' (map page_content docs)"
      have "\<forall>s. stream_workflow env kb \<lparr>state_messages = [q], state_context = []\<rparr> s
        = (case model_invoke env (combined_input ?c q) of
             Inl e \<Rightarrow> Inl (RuntimeError (''Failed to generate model response: '' @ str_exn e))
           | Inr reply \<Rightarrow> Inr [\<lparr>state_messages = [q], state_context = []\<rparr>,
                \<lparr>state_messages = [q], state_context = ?c\<rparr>,
                \<lparr>state_messages = [q, reply], state_context = ?c\<rparr>],
           s\<lparr>trace := trace s @ [SimilaritySearch q default_k, ModelInvoke (combined_input ?c q)]\<rparr>)"
        using h Inr d
        by (simp add: stream_workflow_def and_then_def search_chunks_result call_model_result
            emit_def split: sum.splits)
      then show ?thesis by blast
    qed
  qed
qed

lemma stream_workflow_answers:
  assumes "has_similarity_search env kb"
    and "similarity_search env kb q default_k = Inr docs"
    and "list_all has_page_content docs"
    and "model_invoke env (combined_input (join '' '' (map page_content docs)) q) = Inr reply"
  shows "stream_workflow env kb \<lparr>state_messages = [q], state_context = []\<rparr> s =
           (Inr [\<lparr>state_messages = [q], state_context = []\<rparr>,
                 \<lparr>state_messages = [q], state_context = join '' '' (map page_content docs)\<rparr>,
                 \<lparr>state_messages = [q, reply],
                  state_context = join '' '' (map page_content docs)\<rparr>],
            s\<lparr>trace := trace s @
               [SimilaritySearch q default_k,
                ModelInvoke (combined_input (join '' '' (map page_content docs)) q)]\<rparr>)"
  using assms
  by (simp add: stream_workflow_def and_then_def search_chunks_result call_model_result emit_def)

subsection \<open>The outcomes of a chat call\<close>

lemma get_response_cases:
  assumes "get_response env now chat_id q s = (r, s')"
  obtains
    (invalid_id) "strip chat_id = []" "r = Inl (ValueError ''Invalid chat ID'')" "s' = s"
  | (invalid_question) "strip chat_id \<noteq> []" "strip q = []"
      "r = Inl (ValueError ''Invalid user question'')" "s' = s"
  | (unknown) "strip chat_id \<noteq> []" "strip q \<noteq> []" "chat_storage s chat_id = None"
      "r = Inl (ValueError (''Chat session not found for ID: '' @ chat_id))"
      "s' = emit (RegistryGet chat_id) s"
  | (kb_failed) chat_data m where "strip chat_id \<noteq> []" "strip q \<noteq> []"
      "chat_storage s chat_id = Some chat_data"
      "get_or_create_knowledge_base env chat_id (emit (RegistryGet chat_id) s)
         = (Inl (RuntimeError m), s')"
      "r = Inl (RuntimeError (''Failed to process chat message: '' @ m))"
  | (kb_missing) chat_data where "strip chat_id \<noteq> []" "strip q \<noteq> []"
      "chat_storage s chat_id = Some chat_data"
      "get_or_create_knowledge_base env chat_id (emit (RegistryGet chat_id) s) = (Inr None, s')"
      "r = Inl (ValueError (''Knowledge base not found for chat ID: '' @ chat_id))"
  | (workflow_failed) chat_data kb s2 m evs where "strip chat_id \<noteq> []" "strip q \<noteq> []"
      "chat_storage s chat_id = Some chat_data"
      "get_or_create_knowledge_base env chat_id (emit (RegistryGet chat_id) s)
         = (Inr (Some kb), s2)"
      "r = Inl (RuntimeError (''Failed to process chat message: '' @ m))"
      "s' = s2\<lparr>chat_storage := (chat_storage s2)(chat_id \<mapsto> chat_data\<lparr>knowledge_base := kb\<rparr>),
               trace := trace s2 @ evs\<rparr>"
  | (answered) chat_data kb s2 docs reply where "strip chat_id \<noteq> []" "strip q \<noteq> []"
      "chat_storage s chat_id = Some chat_data"
      "get_or_create_knowledge_base env chat_id (emit (RegistryGet chat_id) s)
         = (Inr (Some kb), s2)"
      "has_similarity_search env kb"
      "similarity_search env kb q default_k = Inr docs"
      "list_all has_page_content docs"
      "model_invoke env (combined_input (join '' '' (map page_content docs)) q) = Inr reply"
      "r = Inr \<lparr>response = reply,
                chat_history = messages chat_data @ [\<lparr>user = q, ai = reply, timestamp = now\<rparr>]\<rparr>"
      "s' = s2\<lparr>chat_storage := (chat_storage s2)(chat_id \<mapsto>
                 chat_data\<lparr>knowledge_base := kb,
                   messages := messages chat_data @ [\<lparr>user = q, ai = reply, timestamp = now\<rparr>]\<rparr>),
               trace := trace s2 @
                 [SimilaritySearch q default_k,
                  ModelInvoke (combined_input (join '' '' (map page_content docs)) q)]\<rparr>"
proof (cases "strip chat_id = []")
  case True
  then show ?thesis
    using assms invalid_id by (auto simp: get_response_def get_response_body_def)
next
  case id: False
  show ?thesis
  proof (cases "strip q = []")
    case True
    then show ?thesis
      using assms id invalid_question by (auto simp: get_response_def get_response_body_def)
  next
    case qu: False
    let ?s1 = "emit (RegistryGet chat_id) s"
    have cs1: "chat_storage ?s1 = chat_storage s"
      by (simp add: emit_def)
    show ?thesis
    proof (cases "chat_storage s chat_id")
      case None
      then show ?thesis
        using assms id qu unknown cs1
        by (auto simp: get_response_def get_response_body_def Let_def)
    next
      case (Some chat_data)
      obtain r1 s2 where g: "get_or_create_knowledge_base env chat_id ?s1 = (r1, s2)"
        by force
      note gc = get_or_create_cases [OF g]
      show ?thesis
      proof (cases r1)
        case (Inl e)
        then obtain m where m: "e = RuntimeError m"
          using gc(2) by blast
        have "r = Inl (RuntimeError (''Failed to process chat message: '' @ m))" "s' = s2"
          using assms id qu Some cs1 g Inl m
          by (auto simp: get_response_def get_response_body_def Let_def)
        then show ?thesis
          using kb_failed [of chat_data m] id qu Some g Inl m by simp
      next
        case (Inr ko)
        show ?thesis
        proof (cases ko)
          case None
          have "r = Inl (ValueError (''Knowledge base not found for chat ID: '' @ chat_id))" "s' = s2"
            using assms id qu Some cs1 g Inr None
            by (auto simp: get_response_def get_response_body_def Let_def)
          then show ?thesis
            using kb_missing [of chat_data] id qu Some g Inr None by simp
        next
          case kb: (Some kb)
          let ?s3 = "s2\<lparr>chat_storage := (chat_storage s2)(chat_id \<mapsto> chat_data\<lparr>knowledge_base := kb\<rparr>)\<rparr>"
          obtain r4 s4 where w:
            "stream_workflow env kb \<lparr>state_messages = [q], state_context = []\<rparr> ?s3 = (r4, s4)"
            by force
          note unfold = id qu Some cs1 g Inr kb w
          from w show ?thesis
          proof (cases rule: stream_workflow_cases)
            case (fails m evs)
            then have "r = Inl (RuntimeError (''Failed to process chat message: '' @ m))"
              "s' = s2\<lparr>chat_storage := (chat_storage s2)(chat_id \<mapsto> chat_data\<lparr>knowledge_base := kb\<rparr>),
               trace := trace s2 @ evs\<rparr>"
              using assms unfold
              by (auto simp: get_response_def get_response_body_def Let_def)
            then show ?thesis
              using workflow_failed [of chat_data kb s2 m evs] id qu Some g Inr kb by simp
          next
            case (answers docs reply)
            then have "r = Inr \<lparr>response = reply,
                chat_history = messages chat_data @ [\<lparr>user = q, ai = reply, timestamp = now\<rparr>]\<rparr>"
              "s' = s2\<lparr>chat_storage := (chat_storage s2)(chat_id \<mapsto>
                 chat_data\<lparr>knowledge_base := kb,
                   messages := messages chat_data @ [\<lparr>user = q, ai = reply, timestamp = now\<rparr>]\<rparr>),
               trace := trace s2 @
                 [SimilaritySearch q default_k,
                  ModelInvoke (combined_input (join '' '' (map page_content docs)) q)]\<rparr>"
              using assms unfold
              by (auto simp: get_response_def get_response_body_def last_item_def Let_def)
            then show ?thesis
              using answered [of chat_data kb s2 docs reply] id qu Some g Inr kb answers by simp
          qed
        qed
      qed
    qed
  qed
qed


lemma get_response_answers:
  assumes "strip chat_id \<noteq> []" "strip q \<noteq> []"
    and "chat_storage s chat_id = Some chat_data"
    and "get_or_create_knowledge_base env chat_id (emit (RegistryGet chat_id) s)
           = (Inr (Some kb), s2)"
    and "has_similarity_search env kb"
    and "similarity_search env kb q default_k = Inr docs"
    and "list_all has_page_content docs"
    and "model_invoke env (combined_input (join '' '' (map page_content docs)) q) = Inr reply"
  shows "get_response env now chat_id q s =
           (Inr \<lparr>response = reply,
                 chat_history = messages chat_data @ [\<lparr>user = q, ai = reply, timestamp = now\<rparr>]\<rparr>,
            s2\<lparr>chat_storage := (chat_storage s2)(chat_id \<mapsto>
                 chat_data\<lparr>knowledge_base := kb,
                   messages := messages chat_data @ [\<lparr>user = q, ai = reply, timestamp = now\<rparr>]\<rparr>),
               trace := trace s2 @
                 [SimilaritySearch q default_k,
                  ModelInvoke (combined_input (join '' '' (map page_content docs)) q)]\<rparr>)"
proof -
  have cs: "chat_storage (emit (RegistryGet chat_id) s) chat_id = Some chat_data"
    using assms(3) by (simp add: emit_def)
  show ?thesis
    using assms(1,2,4) cs stream_workflow_answers [OF assms(5-8)]
    by (simp add: get_response_def get_response_body_def Let_def last_item_def)
qed

lemma get_response_same_index:
  assumes "strip chat_id \<noteq> []" "strip q \<noteq> []"
    and "chat_storage s chat_id = Some chat_data" "chat_storage t chat_id = Some chat_data"
    and "get_or_create_knowledge_base env chat_id (emit (RegistryGet chat_id) s) = (Inr (Some kb), s2)"
    and "get_or_create_knowledge_base env chat_id (emit (RegistryGet chat_id) t) = (Inr (Some kb), t2)"
    and "chat_storage s2 = chat_storage t2" "disk s2 = disk t2"
  shows "fst (get_response env now chat_id q s) = fst (get_response env now chat_id q t)
       \<and> chat_storage (snd (get_response env now chat_id q s))
           = chat_storage (snd (get_response env now chat_id q t))
       \<and> disk (snd (get_response env now chat_id q s)) = disk s2
       \<and> disk (snd (get_response env now chat_id q t)) = disk t2
       \<and> take (length (trace s2)) (trace (snd (get_response env now chat_id q s))) = trace s2"
proof -
  obtain r evs where u: "\<And>x. stream_workflow env kb \<lparr>state_messages = [q], state_context = []\<rparr> x
      = (r, x\<lparr>trace := trace x @ evs\<rparr>)"
    using stream_workflow_uniform [of env kb q] by blast
  have cs: "chat_storage (emit (RegistryGet chat_id) s) chat_id = Some chat_data"
     "chat_storage (emit (RegistryGet chat_id) t) chat_id = Some chat_data"
    using assms(3,4) by (simp_all add: emit_def)
  show ?thesis
    using assms(1,2,5-8) cs u
    by (auto simp: get_response_def get_response_body_def Let_def
        split: sum.splits exn.splits)
qed


lemma get_response_history:
  assumes "get_response env now chat_id q s = (r, s')" "chat_storage s cid = Some c"
  shows "\<exists>c'. chat_storage s' cid = Some c' \<and>
           messages c' = messages c @
             (if cid = chat_id \<and> \<not> isl r
              then [\<lparr>user = q, ai = response (projr r), timestamp = now\<rparr>] else [])"
  using assms(1)
proof (cases rule: get_response_cases)
  case invalid_id
  then show ?thesis using assms(2) by simp
next
  case invalid_question
  then show ?thesis using assms(2) by simp
next
  case unknown
  then show ?thesis using assms(2) by (simp add: emit_def)
next
  case (kb_failed chat_data m)
  then show ?thesis
    using assms(2) get_or_create_cases(1) [OF kb_failed(4)]
    by (simp add: store_step_def emit_def)
next
  case (kb_missing chat_data)
  then show ?thesis
    using assms(2) get_or_create_cases(1) [OF kb_missing(4)]
    by (simp add: store_step_def emit_def)
next
  case (workflow_failed chat_data kb s2 m evs)
  then show ?thesis
    using assms(2) get_or_create_cases(1) [OF workflow_failed(4)]
    by (auto simp: store_step_def emit_def)
next
  case (answered chat_data kb s2 docs reply)
  then show ?thesis
    using assms(2) get_or_create_cases(1) [OF answered(4)]
    by (auto simp: store_step_def emit_def)
qed

lemma chat_calls_history:
  "chat_calls calls s = (rs, s') \<Longrightarrow> chat_storage s cid = Some c \<Longrightarrow>
   length rs = length calls \<and>
   (\<exists>c'. chat_storage s' cid = Some c' \<and> messages c' = messages c @ new_entries cid calls rs)"
proof (induction calls arbitrary: s rs c s')
  case Nil
  then show ?case by (simp add: new_entries_def)
next
  case (Cons call calls)
  obtain env now chat_id q where call: "call = (env, now, chat_id, q)"
    by (cases call) auto
  obtain r s1 where g: "get_response env now chat_id q s = (r, s1)"
    by force
  obtain rs1 s2 where rest: "chat_calls calls s1 = (rs1, s2)"
    by force
  have rs: "rs = r # rs1" "s' = s2"
    using Cons.prems(1) call g rest by simp_all
  obtain c1 where c1: "chat_storage s1 cid = Some c1"
     "messages c1 = messages c @
             (if cid = chat_id \<and> \<not> isl r
              then [\<lparr>user = q, ai = response (projr r), timestamp = now\<rparr>] else [])"
    using get_response_history [OF g Cons.prems(2)] by blast
  from Cons.IH [OF rest c1(1)] obtain c' where c': "length rs1 = length calls"
    "chat_storage s2 cid = Some c'" "messages c' = messages c1 @ new_entries cid calls rs1"
    by blast
  show ?case
    using c' c1(2) rs call by (auto simp: new_entries_def)
qed

lemma filter_store_events:
  "list_all store_event evs \<Longrightarrow>
   filter is_model_invoke evs = [] \<and> filter is_similarity_search evs = []"
  by (induction evs) (auto simp: store_event_def)

lemma take_drop_prefix:
  assumes "take (length ys) xs = ys" "ys = pre @ mid"
  shows "take (length mid) (drop (length pre) xs) = mid"
proof -
  have "xs = ys @ drop (length ys) xs"
    using append_take_drop_id [of "length ys" xs] assms(1) by simp
  then have "xs = pre @ mid @ drop (length ys) xs"
    using assms(2) by simp
  then have "drop (length pre) xs = mid @ drop (length ys) xs"
    by (metis append_eq_conv_conj)
  then show ?thesis
    by simp
qed

subsection \<open>The concrete world\<close>

lemmas run_defs =
  get_response_def get_response_body_def get_or_create_knowledge_base_def
  load_knowledge_base_def FAISS_load_local_def stream_workflow_def search_chunks_def
  call_model_def last_item_def has_page_content_def default_k_def reraise_def and_then_def
  emit_def embedding_path_def embeddings_dir_def example_env_def sky_state_def sky_chat_def
  sky_question_def strip_def isspace_def Let_def

lemma process_pdf_sky:
  "process_pdf example_env ''c1'' ''2024-01-01T00:00:00'' ''2024-01-01T00:00:01''
     ''uploads/sky.pdf'' empty_state =
   (Inr ''c1'',
    sky_state\<lparr>trace := [OpenPdf ''uploads/sky.pdf'',
                        FromTexts [''The sky is blue. Grass is green.''],
                        SaveLocal ''storage/embeddings/c1.faiss'']\<rparr>)"
  by (simp add: process_pdf_def example_env_def empty_state_def sky_state_def sky_chat_def
      reraise_def and_then_def extract_text_from_pdf_def create_knowledge_base_def
      save_knowledge_base_def FAISS_save_local_def FAISS_from_texts_def emit_def
      embedding_path_def embeddings_dir_def split_text_sky Let_def)

lemma sky_first_answer:
  "get_response example_env ''2024-01-02T10:00:00'' ''c1'' sky_question sky_state =
     (Inr \<lparr>response = ''Blue.'',
           chat_history = [\<lparr>user = sky_question, ai = ''Blue.'',
                            timestamp = ''2024-01-02T10:00:00''\<rparr>]\<rparr>,
      sky_state\<lparr>chat_storage := [''c1'' \<mapsto> sky_chat\<lparr>messages :=
                     [\<lparr>user = sky_question, ai = ''Blue.'',
                       timestamp = ''2024-01-02T10:00:00''\<rparr>]\<rparr>],
                trace := [RegistryGet ''c1'', PathExists ''storage/embeddings/c1.faiss'',
                          LoadLocal ''storage/embeddings/c1.faiss'',
                          SimilaritySearch sky_question 4,
                          ModelInvoke (combined_input ''The sky is blue. Grass is green.''
                                         sky_question)]\<rparr>)"
  by (simp add: run_defs)

lemma pair_answer:
  "get_response example_env ''2024-01-02T10:00:00'' ''c2'' sky_question pair_state =
     (Inr \<lparr>response = ''Blue.'',
           chat_history = [\<lparr>user = sky_question, ai = ''Blue.'',
                            timestamp = ''2024-01-02T10:00:00''\<rparr>]\<rparr>,
      pair_state\<lparr>chat_storage := [''c2'' \<mapsto> pair_chat\<lparr>messages :=
                     [\<lparr>user = sky_question, ai = ''Blue.'',
                       timestamp = ''2024-01-02T10:00:00''\<rparr>]\<rparr>],
                trace := [RegistryGet ''c2'', PathExists ''storage/embeddings/c2.faiss'',
                          LoadLocal ''storage/embeddings/c2.faiss'',
                          SimilaritySearch sky_question 4,
                          ModelInvoke (combined_input ''The sky is blue. Grass is green.''
                                         sky_question)]\<rparr>)"
  by (simp add: get_response_def get_response_body_def get_or_create_knowledge_base_def
  load_knowledge_base_def FAISS_load_local_def stream_workflow_def search_chunks_def
  call_model_def last_item_def has_page_content_def default_k_def reraise_def and_then_def
  emit_def embedding_path_def embeddings_dir_def example_env_def pair_state_def pair_chat_def
  sky_question_def strip_def isspace_def Let_def)

lemma sky_ingested_eq:
  "sky_ingested = sky_state\<lparr>trace := [OpenPdf ''uploads/sky.pdf'',
                        FromTexts [''The sky is blue. Grass is green.''],
                        SaveLocal ''storage/embeddings/c1.faiss'']\<rparr>"
  by (simp add: sky_ingested_def process_pdf_sky)

lemmas sky_defs = run_defs sky_ingested_eq sky_index_deleted_def

lemma sky_talked_eq:
  "chat_calls [(example_env, ''2024-01-02T10:00:00'', ''c1'', sky_question)] sky_ingested =
     ([Inr \<lparr>response = ''Blue.'',
             chat_history = [\<lparr>user = sky_question, ai = ''Blue.'',
                              timestamp = ''2024-01-02T10:00:00''\<rparr>]\<rparr>],
      sky_talked)"
  by (simp add: sky_talked_def sky_defs)

section \<open>Chat calls\<close>

text \<open>
  Claim C2, as amended. A chat call with an unknown session id fails with a
  \<open>ValueError\<close>, which the endpoint turns into the not-found response (status 404).
  That kind is not reserved for unknown sessions: a call fails with a \<open>ValueError\<close>
  exactly when the session id is blank, or the question is blank, or the session is
  unknown, or nothing is persisted for the session and it has no non-empty stored file
  path. Every other failure is a \<open>RuntimeError\<close>, which the endpoint does not turn
  into the not-found response.
\<close>

theorem get_response_error_kinds:
  "(chat_storage s chat_id = None \<longrightarrow>
      (\<exists>m. fst (get_response env now chat_id q s) = Inl (ValueError m)
          \<and> fst (chat env now chat_id q s) = HTTPException 404 m))
   \<and> ((\<exists>m. fst (get_response env now chat_id q s) = Inl (ValueError m)) \<longleftrightarrow>
         strip chat_id = [] \<or> strip q = [] \<or> chat_storage s chat_id = None \<or>
         (disk s (embedding_path env chat_id) = None \<and>
          (\<forall>chat_data file_path. chat_storage s chat_id = Some chat_data \<and>
              metadata chat_data ''file_path'' = Some file_path \<longrightarrow> file_path = [])))
   \<and> (\<forall>e. fst (get_response env now chat_id q s) = Inl e \<longrightarrow>
         (\<exists>m. e = ValueError m \<and> fst (chat env now chat_id q s) = HTTPException 404 m) \<or>
         (\<exists>m. e = RuntimeError m \<and> fst (chat env now chat_id q s) = Uncaught (RuntimeError m)))"
proof -
  obtain r s' where g: "get_response env now chat_id q s = (r, s')"
    by force
  let ?nokb = "disk s (embedding_path env chat_id) = None \<and>
          (\<forall>chat_data file_path. chat_storage s chat_id = Some chat_data \<and>
              metadata chat_data ''file_path'' = Some file_path \<longrightarrow> file_path = [])"
  have nokb: "r2 = Inr None \<longleftrightarrow> ?nokb"
    if "get_or_create_knowledge_base env chat_id (emit (RegistryGet chat_id) s) = (r2, s2)"
    for r2 s2
    using get_or_create_cases(3) [OF that] by (simp add: emit_def)
  have c: "fst (chat env now chat_id q s) =
      (case r of Inr x \<Rightarrow> Returned x | Inl (ValueError m) \<Rightarrow> HTTPException 404 m
       | Inl e \<Rightarrow> Uncaught e)"
    using g by (simp add: chat_def split: sum.splits exn.splits)
  from g have "(chat_storage s chat_id = None \<longrightarrow> (\<exists>m. r = Inl (ValueError m)))
     \<and> ((\<exists>m. r = Inl (ValueError m)) \<longleftrightarrow>
         strip chat_id = [] \<or> strip q = [] \<or> chat_storage s chat_id = None \<or> ?nokb)
     \<and> (\<forall>e. r = Inl e \<longrightarrow> (\<exists>m. e = ValueError m) \<or> (\<exists>m. e = RuntimeError m))"
  proof (cases rule: get_response_cases)
    case (kb_failed chat_data m)
    then show ?thesis using nokb [OF kb_failed(4)] by simp
  next
    case (kb_missing chat_data)
    then show ?thesis using nokb [OF kb_missing(4)] by simp
  next
    case (workflow_failed chat_data kb s2 m evs)
    then show ?thesis using nokb [OF workflow_failed(4)] by simp
  next
    case (answered chat_data kb s2 docs reply)
    then show ?thesis using nokb [OF answered(4)] by simp
  qed simp_all
  then show ?thesis
    using g c by auto
qed

theorem get_response_error_kinds_witness:
  "chat_storage sky_state ''c7'' = None
   \<and> fst (get_response example_env ''2024-01-02T10:00:00'' ''c7'' sky_question sky_state)
     = Inl (ValueError ''Chat session not found for ID: c7'')
   \<and> fst (chat example_env ''2024-01-02T10:00:00'' ''c7'' sky_question sky_state)
     = HTTPException 404 ''Chat session not found for ID: c7''
   \<and> fst (get_response example_env ''2024-01-02T10:00:00'' ''c1'' sky_question sky_corrupt_state)
     = Inl (RuntimeError (''Failed to process chat message: '' @
              ''Failed to retrieve knowledge base: '' @
              ''Failed to load knowledge base: bad index''))
   \<and> fst (chat example_env ''2024-01-02T10:00:00'' ''c1'' sky_question sky_corrupt_state)
     = Uncaught (RuntimeError (''Failed to process chat message: '' @
              ''Failed to retrieve knowledge base: '' @
              ''Failed to load knowledge base: bad index''))"
  using get_response_error_kinds [of sky_state "''c7''" example_env "''2024-01-02T10:00:00''"
          sky_question]
        get_response_error_kinds [of sky_corrupt_state "''c1''" example_env
          "''2024-01-02T10:00:00''" sky_question]
  by (simp add: run_defs sky_corrupt_state_def chat_def dom_def)

text \<open>
  Claim C2 as stated fails: on a registered session, an empty question is answered with
  the same not-found response (status 404) as a call on an unknown session.
\<close>

theorem not_found_kind_counterexample:
  "chat_storage sky_state ''c1'' = Some sky_chat
   \<and> fst (chat example_env ''2024-01-02T10:00:00'' ''c1'' [] sky_state)
       = HTTPException 404 ''Invalid user question''
   \<and> chat_storage sky_state ''c7'' = None
   \<and> fst (chat example_env ''2024-01-02T10:00:00'' ''c7'' ''What color is the sky?'' sky_state)
       = HTTPException 404 ''Chat session not found for ID: c7''"
  by (simp add: chat_def get_response_def get_response_body_def sky_state_def strip_def
      isspace_def emit_def)


text \<open>
  Claim C7. In a successful chat call the similarity search is called once, with the
  question as it is and the default number of results, on the index that the session
  then refers to; every document it returns has a text; the language model is invoked
  exactly once, with a single prompt; the prompt is the line \<open>Context from PDF:\<close>,
  the context, an empty line, \<open>User Question: \<close> followed by the question as it is,
  an empty line, and the instruction to answer from the context, where the context is
  the texts of the documents, in the order of the search, joined by single spaces (this
  is \<open>combined_input\<close> of the context and the question); and the response is the
  reply of the model to that prompt.
\<close>

theorem get_response_retrieval_and_generation:
  assumes "get_response env now chat_id q s = (Inr r, s')"
  shows "\<exists>chat_data docs prompt.
           chat_storage s' chat_id = Some chat_data
         \<and> similarity_search env (knowledge_base chat_data) q default_k = Inr docs
         \<and> list_all has_page_content docs
         \<and> filter is_similarity_search (new_events s s') = [SimilaritySearch q default_k]
         \<and> prompt = ''Context from PDF:'' @ [NL] @ join '' '' (map page_content docs) @ [NL, NL] @
                      ''User Question: '' @ q @ [NL, NL] @
                      ''Please provide a response based on the context above.''
         \<and> prompt = combined_input (join '' '' (map page_content docs)) q
         \<and> filter is_model_invoke (new_events s s') = [ModelInvoke prompt]
         \<and> model_invoke env prompt = Inr (response r)"
  using assms
proof (cases rule: get_response_cases)
  case (answered chat_data kb s2 docs reply)
  from get_or_create_cases(1) [OF answered(4)]
  obtain evs where evs: "trace s2 = trace s @ [RegistryGet chat_id] @ evs" "list_all store_event evs"
    by (auto simp: store_step_def emit_def)
  have ne: "new_events s s' = [RegistryGet chat_id] @ evs @
                 [SimilaritySearch q default_k,
                  ModelInvoke (combined_input (join '' '' (map page_content docs)) q)]"
    using answered(10) evs(1) by (simp add: new_events_def)
  have p: "combined_input (join '' '' (map page_content docs)) q
             = ''Context from PDF:'' @ [NL] @ join '' '' (map page_content docs) @ [NL, NL] @
               ''User Question: '' @ q @ [NL, NL] @
               ''Please provide a response based on the context above.''"
    by (simp add: combined_input_def)
  show ?thesis
    apply (rule exI [of _ "chat_data\<lparr>knowledge_base := kb,
                   messages := messages chat_data @ [\<lparr>user = q, ai = reply, timestamp = now\<rparr>]\<rparr>"],
        rule exI [of _ docs],
        rule exI [of _ "combined_input (join '' '' (map page_content docs)) q"])
    using answered ne filter_store_events [OF evs(2)] p by simp
qed simp_all

theorem get_response_retrieval_and_generation_witness:
  "fst (get_response example_env ''2024-01-02T10:00:00'' ''c2'' sky_question pair_state)
     = Inr \<lparr>response = ''Blue.'',
            chat_history = [\<lparr>user = sky_question, ai = ''Blue.'',
                             timestamp = ''2024-01-02T10:00:00''\<rparr>]\<rparr>
   \<and> similarity_search example_env [''The sky is blue.'', ''Grass is green.''] sky_question 4
     = Inr [Document ''The sky is blue.'', Document ''Grass is green.'']
   \<and> filter is_similarity_search
       (new_events pair_state
          (snd (get_response example_env ''2024-01-02T10:00:00'' ''c2'' sky_question pair_state)))
     = [SimilaritySearch ''What color is the sky?'' 4]
   \<and> filter is_model_invoke
       (new_events pair_state
          (snd (get_response example_env ''2024-01-02T10:00:00'' ''c2'' sky_question pair_state)))
     = [ModelInvoke
          (''Context from PDF:'' @ [NL] @ ''The sky is blue. Grass is green.'' @ [NL, NL] @
           ''User Question: What color is the sky?'' @ [NL, NL] @
           ''Please provide a response based on the context above.'')]
   \<and> model_invoke example_env
         (''Context from PDF:'' @ [NL] @ ''The sky is blue. Grass is green.'' @ [NL, NL] @
           ''User Question: What color is the sky?'' @ [NL, NL] @
           ''Please provide a response based on the context above.'') = Inr ''Blue.''"
proof -
  from get_response_retrieval_and_generation [OF pair_answer]
  obtain chat_data docs prompt where
    a: "chat_storage (snd (get_response example_env ''2024-01-02T10:00:00'' ''c2'' sky_question
          pair_state)) ''c2'' = Some chat_data"
      "similarity_search example_env (knowledge_base chat_data) sky_question default_k = Inr docs"
    and p: "prompt = ''Context from PDF:'' @ [NL] @ join '' '' (map page_content docs) @ [NL, NL] @
                      ''User Question: '' @ sky_question @ [NL, NL] @
                      ''Please provide a response based on the context above.''"
    and m: "filter is_model_invoke
       (new_events pair_state
          (snd (get_response example_env ''2024-01-02T10:00:00'' ''c2'' sky_question pair_state)))
        = [ModelInvoke prompt]"
      "filter is_similarity_search
       (new_events pair_state
          (snd (get_response example_env ''2024-01-02T10:00:00'' ''c2'' sky_question pair_state)))
        = [SimilaritySearch sky_question default_k]"
      "model_invoke example_env prompt = Inr (response (projr (fst (get_response example_env
           ''2024-01-02T10:00:00'' ''c2'' sky_question pair_state))))"
    by (auto simp: pair_answer)
  have kb: "knowledge_base chat_data = [''The sky is blue.'', ''Grass is green.'']"
    using a(1) by (auto simp: pair_answer pair_chat_def)
  have docs: "docs = [Document ''The sky is blue.'', Document ''Grass is green.'']"
    using a(2) kb by (simp add: example_env_def default_k_def)
  have pr: "prompt = ''Context from PDF:'' @ [NL] @ ''The sky is blue. Grass is green.'' @ [NL, NL] @
           ''User Question: What color is the sky?'' @ [NL, NL] @
           ''Please provide a response based on the context above.''"
    using p docs by (simp add: sky_question_def)
  show ?thesis
    using m pr pair_answer by (simp add: example_env_def default_k_def sky_question_def)
qed

text \<open>
  Claim C4. For a registered session: a successful chat call appends the entry of the
  question, the answer and the timestamp to the history and returns the answer with the
  whole new history; after any sequence of chat calls (on any sessions, successful or
  not) the history is the old history followed by the entries of the successful calls
  on the session, in call order; so when all \<open>N\<close> calls are on the session and
  succeed, the history has grown by exactly \<open>N\<close> entries.
\<close>

theorem history_append_only:
  assumes "chat_storage s cid = Some c"
  shows "(\<forall>env now q r s1. get_response env now cid q s = (Inr r, s1) \<longrightarrow>
            (\<exists>c1. chat_storage s1 cid = Some c1 \<and>
               messages c1 = messages c @ [\<lparr>user = q, ai = response r, timestamp = now\<rparr>] \<and>
               chat_history r = messages c1))
       \<and> (\<forall>calls rs s'. chat_calls calls s = (rs, s') \<longrightarrow>
            (\<exists>c'. chat_storage s' cid = Some c' \<and>
               messages c' = messages c @ new_entries cid calls rs \<and>
               (list_all (\<lambda>((env, now, chat_id, question), r). chat_id = cid \<and> \<not> isl r)
                    (zip calls rs) \<longrightarrow>
                  length (messages c') = length (messages c) + length calls)))"
proof (intro conjI allI impI)
  fix env now q r s1
  assume g: "get_response env now cid q s = (Inr r, s1)"
  from g show "\<exists>c1. chat_storage s1 cid = Some c1 \<and>
               messages c1 = messages c @ [\<lparr>user = q, ai = response r, timestamp = now\<rparr>] \<and>
               chat_history r = messages c1"
  proof (cases rule: get_response_cases)
    case (answered chat_data kb s2 docs reply)
    then show ?thesis using assms by auto
  qed simp_all
next
  fix calls rs s'
  assume run: "chat_calls calls s = (rs, s')"
  from chat_calls_history [OF run assms] obtain c' where c': "length rs = length calls"
    "chat_storage s' cid = Some c'" "messages c' = messages c @ new_entries cid calls rs"
    by blast
  have "list_all (\<lambda>((env, now, chat_id, question), r). chat_id = cid \<and> \<not> isl r)
        (zip calls rs) \<longrightarrow>
      length (new_entries cid calls rs) = length calls"
  proof
    assume a: "list_all (\<lambda>((env, now, chat_id, question), r). chat_id = cid \<and> \<not> isl r)
        (zip calls rs)"
    have "filter (\<lambda>((env, now, cid', question), r). cid' = cid \<and> \<not> isl r) (zip calls rs) = zip calls rs"
      using a by (intro filter_True) (auto simp: list_all_iff)
    then show "length (new_entries cid calls rs) = length calls"
      using c'(1) by (simp add: new_entries_def)
  qed
  then show "\<exists>c'. chat_storage s' cid = Some c' \<and>
               messages c' = messages c @ new_entries cid calls rs \<and>
               (list_all (\<lambda>((env, now, chat_id, question), r). chat_id = cid \<and> \<not> isl r)
                    (zip calls rs) \<longrightarrow>
                  length (messages c') = length (messages c) + length calls)"
    using c' by auto
qed


theorem history_append_only_witness:
  "chat_storage sky_state ''c1'' = Some sky_chat
   \<and> messages sky_chat = []
   \<and> fst (get_response example_env ''2024-01-02T10:00:00'' ''c1'' sky_question sky_state)
       = Inr \<lparr>response = ''Blue.'',
              chat_history = [\<lparr>user = sky_question, ai = ''Blue.'',
                               timestamp = ''2024-01-02T10:00:00''\<rparr>]\<rparr>
   \<and> map isl (fst (chat_calls
          [(example_env, ''2024-01-02T10:00:00'', ''c1'', sky_question),
           (example_env, ''2024-01-02T10:05:00'', ''c1'', ''And the grass?'')] sky_state))
       = [False, False]
   \<and> (\<exists>c'. chat_storage
          (snd (chat_calls [(example_env, ''2024-01-02T10:00:00'', ''c1'', sky_question),
                            (example_env, ''2024-01-02T10:05:00'', ''c1'', ''And the grass?'')]
                  sky_state)) ''c1'' = Some c'
        \<and> messages c' =
            [\<lparr>user = sky_question, ai = ''Blue.'', timestamp = ''2024-01-02T10:00:00''\<rparr>,
             \<lparr>user = ''And the grass?'', ai = ''Blue.'', timestamp = ''2024-01-02T10:05:00''\<rparr>]
        \<and> length (messages c') = 2)"
  using history_append_only [of sky_state "''c1''" sky_chat]
  by (simp add: run_defs new_entries_def dom_def)

subsection \<open>Rebuilding a deleted index\<close>

lemma rebuild_same_as_persisted:
  assumes "strip chat_id \<noteq> []" "strip q \<noteq> []"
    and "chat_storage s chat_id = Some chat_data"
    and "metadata chat_data ''file_path'' = Some file_path" "file_path \<noteq> []"
    and "disk s (embedding_path env chat_id) = None"
    and "pdf_reader env file_path = Inr pages" "join_pages pages = Inr body"
    and "split_text body = Inr chunks" "chunks \<noteq> []" "embed_index env chunks = Inr kb"
    and "save_error env (embedding_path env chat_id) = None"
  shows "take 6 (new_events s (snd (get_response env now chat_id q s)))
           = [RegistryGet chat_id, PathExists (embedding_path env chat_id), RegistryGet chat_id,
              OpenPdf file_path, FromTexts chunks, SaveLocal (embedding_path env chat_id)]
       \<and> disk (snd (get_response env now chat_id q s))
           = (disk s)(embedding_path env chat_id \<mapsto> Inr kb)
       \<and> fst (get_response env now chat_id q s)
           = fst (get_response env now chat_id q
                    (s\<lparr>disk := (disk s)(embedding_path env chat_id \<mapsto> Inr kb)\<rparr>))
       \<and> chat_storage (snd (get_response env now chat_id q s))
           = chat_storage (snd (get_response env now chat_id q
                    (s\<lparr>disk := (disk s)(embedding_path env chat_id \<mapsto> Inr kb)\<rparr>)))
       \<and> (\<forall>docs reply.
             has_similarity_search env kb \<and> similarity_search env kb q default_k = Inr docs \<and>
             list_all has_page_content docs \<and>
             model_invoke env (combined_input (join '' '' (map page_content docs)) q) = Inr reply
             \<longrightarrow> fst (get_response env now chat_id q s)
                   = Inr \<lparr>response = reply,
                          chat_history = messages chat_data @
                            [\<lparr>user = q, ai = reply, timestamp = now\<rparr>]\<rparr>)"
proof -
  let ?p = "embedding_path env chat_id"
  let ?s1 = "emit (RegistryGet chat_id) s"
  let ?t = "s\<lparr>disk := (disk s)(?p \<mapsto> Inr kb)\<rparr>"
  let ?t1 = "emit (RegistryGet chat_id) ?t"
  let ?s2 = "?s1\<lparr>disk := (disk ?s1)(?p \<mapsto> Inr kb),
              trace := trace ?s1 @
                [PathExists ?p, RegistryGet chat_id, OpenPdf file_path, FromTexts chunks,
                 SaveLocal ?p]\<rparr>"
  let ?t2 = "?t1\<lparr>trace := trace ?t1 @ [PathExists ?p, LoadLocal ?p]\<rparr>"
  have gs: "get_or_create_knowledge_base env chat_id ?s1 = (Inr (Some kb), ?s2)"
    using assms(3-12) by (intro get_or_create_rebuild) (simp_all add: emit_def)
  have gt: "get_or_create_knowledge_base env chat_id ?t1 = (Inr (Some kb), ?t2)"
    by (intro get_or_create_present) (simp add: emit_def)
  have ct: "chat_storage ?t chat_id = Some chat_data"
    using assms(3) by simp
  have same: "chat_storage ?s2 = chat_storage ?t2" "disk ?s2 = disk ?t2"
    by (simp_all add: emit_def)
  note si = get_response_same_index [OF assms(1,2,3) ct gs gt same, of now]
  have tr: "take 6 (new_events s (snd (get_response env now chat_id q s)))
           = [RegistryGet chat_id, PathExists ?p, RegistryGet chat_id,
              OpenPdf file_path, FromTexts chunks, SaveLocal ?p]"
  proof -
    let ?tr = "trace (snd (get_response env now chat_id q s))"
    let ?six = "[RegistryGet chat_id, PathExists ?p, RegistryGet chat_id,
              OpenPdf file_path, FromTexts chunks, SaveLocal ?p]"
    have a: "take (length (trace ?s2)) ?tr = trace ?s2"
      using si by blast
    have eq: "trace ?s2 = trace s @ ?six"
      by (simp add: emit_def)
    have "take (length ?six) (drop (length (trace s)) ?tr) = ?six"
      using a eq by (rule take_drop_prefix)
    then show ?thesis
      by (simp add: new_events_def eval_nat_numeral)
  qed
  have dk: "disk (snd (get_response env now chat_id q s)) = (disk s)(?p \<mapsto> Inr kb)"
    using si by (simp add: emit_def)
  have ok: "fst (get_response env now chat_id q s)
                   = Inr \<lparr>response = reply,
                          chat_history = messages chat_data @
                            [\<lparr>user = q, ai = reply, timestamp = now\<rparr>]\<rparr>"
    if "has_similarity_search env kb \<and> similarity_search env kb q default_k = Inr docs \<and>
             list_all has_page_content docs \<and>
             model_invoke env (combined_input (join '' '' (map page_content docs)) q) = Inr reply"
    for docs reply
  proof -
    from that have h: "has_similarity_search env kb"
        "similarity_search env kb q default_k = Inr docs"
        "list_all has_page_content docs"
        "model_invoke env (combined_input (join '' '' (map page_content docs)) q) = Inr reply"
      by simp_all
    show ?thesis
      using get_response_answers [OF assms(1,2,3) gs h] by simp
  qed
  show ?thesis
    using tr dk si ok by blast
qed

lemma process_pdf_success:
  assumes "process_pdf env chat_id now_metadata now_created file_path s0 = (Inr r, s1)"
  shows "r = chat_id \<and>
    (\<exists>pages body chunks kb.
       pdf_reader env file_path = Inr pages \<and> join_pages pages = Inr body \<and>
       split_text body = Inr chunks \<and> chunks \<noteq> [] \<and> embed_index env chunks = Inr kb \<and>
       save_error env (embedding_path env chat_id) = None \<and>
       (\<exists>chat_data. chat_storage s1 chat_id = Some chat_data \<and>
          metadata chat_data ''file_path'' = Some file_path \<and> messages chat_data = []) \<and>
       disk s1 (embedding_path env chat_id) = Some (Inr kb))"
  using assms
  by (auto simp: process_pdf_def reraise_def and_then_def extract_text_from_pdf_def
      create_knowledge_base_def save_knowledge_base_def FAISS_save_local_def FAISS_from_texts_def
      emit_def Let_def split: sum.splits option.splits if_splits prod.splits)


lemma get_or_create_disk:
  assumes "get_or_create_knowledge_base env chat_id s = (r, s')" "disk s p = Some x"
  shows "disk s' p = Some x"
  using assms
  by (auto simp: get_or_create_knowledge_base_def load_knowledge_base_def FAISS_load_local_def
      reraise_def and_then_def extract_text_from_pdf_def create_knowledge_base_def
      save_knowledge_base_def FAISS_save_local_def FAISS_from_texts_def emit_def Let_def dom_def
      split: sum.splits option.splits if_splits prod.splits)


lemma get_response_keeps:
  assumes "get_response env now chat_id q s = (r, s')"
  shows "disk s p = Some x \<Longrightarrow> disk s' p = Some x"
    and "chat_storage s cid = Some c \<Longrightarrow>
           \<exists>c'. chat_storage s' cid = Some c' \<and> metadata c' = metadata c"
proof -
  have d: "disk s2 p = Some x"
    if "get_or_create_knowledge_base env chat_id (emit (RegistryGet chat_id) s) = (r2, s2)"
      "disk s p = Some x" for r2 s2
    using get_or_create_disk [OF that(1), of p x] that(2) by (simp add: emit_def)
  have m: "\<exists>c'. chat_storage s2 cid = Some c' \<and> metadata c' = metadata c"
    if "get_or_create_knowledge_base env chat_id (emit (RegistryGet chat_id) s) = (r2, s2)"
      "chat_storage s cid = Some c" for r2 s2
    using get_or_create_cases(1) [OF that(1)] that(2) by (simp add: store_step_def emit_def)
  show "disk s p = Some x \<Longrightarrow> disk s' p = Some x"
    using assms
  proof (cases rule: get_response_cases)
    case (kb_failed chat_data m)
    assume "disk s p = Some x"
    then show ?thesis using d [OF kb_failed(4)] by simp
  next
    case (kb_missing chat_data)
    assume "disk s p = Some x"
    then show ?thesis using d [OF kb_missing(4)] by simp
  next
    case (workflow_failed chat_data kb s2 m evs)
    assume "disk s p = Some x"
    then show ?thesis using d [OF workflow_failed(4)] workflow_failed(6) by simp
  next
    case (answered chat_data kb s2 docs reply)
    assume "disk s p = Some x"
    then show ?thesis using d [OF answered(4)] answered(10) by simp
  qed (simp_all add: emit_def)
  show "chat_storage s cid = Some c \<Longrightarrow>
           \<exists>c'. chat_storage s' cid = Some c' \<and> metadata c' = metadata c"
    using assms
  proof (cases rule: get_response_cases)
    case (kb_failed chat_data m)
    assume "chat_storage s cid = Some c"
    then show ?thesis using m [OF kb_failed(4)] by simp
  next
    case (kb_missing chat_data)
    assume "chat_storage s cid = Some c"
    then show ?thesis using m [OF kb_missing(4)] by simp
  next
    case (workflow_failed chat_data kb s2 m' evs)
    assume a: "chat_storage s cid = Some c"
    have "chat_storage s2 = chat_storage s"
      using get_or_create_cases(1) [OF workflow_failed(4)] by (simp add: store_step_def emit_def)
    then show ?thesis using a workflow_failed(3,6) by auto
  next
    case (answered chat_data kb s2 docs reply)
    assume a: "chat_storage s cid = Some c"
    have "chat_storage s2 = chat_storage s"
      using get_or_create_cases(1) [OF answered(4)] by (simp add: store_step_def emit_def)
    then show ?thesis using a answered(3,10) by auto
  qed (simp_all add: emit_def)
qed

lemma chat_calls_keeps:
  "chat_calls calls s = (rs, s') \<Longrightarrow> disk s p = Some x \<Longrightarrow> chat_storage s cid = Some c \<Longrightarrow>
   disk s' p = Some x \<and> (\<exists>c'. chat_storage s' cid = Some c' \<and> metadata c' = metadata c)"
proof (induction calls arbitrary: s rs s' c)
  case Nil
  then show ?case by simp
next
  case (Cons call calls)
  obtain env now chat_id q where call: "call = (env, now, chat_id, q)"
    by (cases call) auto
  obtain r s1 where g: "get_response env now chat_id q s = (r, s1)"
    by force
  obtain rs1 s2 where rest: "chat_calls calls s1 = (rs1, s2)"
    by force
  have s': "s' = s2"
    using Cons.prems(1) call g rest by simp
  obtain c1 where c1: "chat_storage s1 cid = Some c1" "metadata c1 = metadata c"
    using get_response_keeps(2) [OF g Cons.prems(3)] by blast
  have d1: "disk s1 p = Some x"
    using get_response_keeps(1) [OF g Cons.prems(2)] .
  from Cons.IH [OF rest d1 c1(1)] show ?case
    using c1(2) s' by auto
qed

text \<open>
  Claim C1, as amended. Let the ingestion of a file have succeeded, registering the
  session with the path of the file and persisting an index, and let any chat calls
  have followed. If the persisted index is then deleted, a chat call with valid inputs
  on the session, made while the file and the collaborators are as they were at the
  ingestion, looks the session up, finds no persisted index, reads the session again,
  extracts the stored file, builds the index from the chunks and saves it at the path
  of the same session id. After the call, storage is as it was before the deletion: the
  index of the ingestion is persisted there again. The result of the call, and the
  registry after it, are those of the same call made before the deletion; and the call
  succeeds whenever the search and the model do.
\<close>

theorem chat_rebuilds_missing_index:
  assumes "process_pdf env chat_id now_metadata now_created file_path s0 = (Inr r, s1)"
    and "file_path \<noteq> []" "strip chat_id \<noteq> []" "strip q \<noteq> []"
    and "chat_calls calls s1 = (rs, s2)"
  shows "\<exists>chat_data chunks kb.
           chat_storage s2 chat_id = Some chat_data
         \<and> disk s1 (embedding_path env chat_id) = Some (Inr kb)
         \<and> disk s2 (embedding_path env chat_id) = Some (Inr kb)
         \<and> take 6 (new_events (s2\<lparr>disk := (disk s2)(embedding_path env chat_id := None)\<rparr>)
              (snd (get_response env now chat_id q
                 (s2\<lparr>disk := (disk s2)(embedding_path env chat_id := None)\<rparr>))))
             = [RegistryGet chat_id, PathExists (embedding_path env chat_id),
                RegistryGet chat_id, OpenPdf file_path, FromTexts chunks,
                SaveLocal (embedding_path env chat_id)]
         \<and> disk (snd (get_response env now chat_id q
                 (s2\<lparr>disk := (disk s2)(embedding_path env chat_id := None)\<rparr>)))
             = disk s2
         \<and> fst (get_response env now chat_id q
                 (s2\<lparr>disk := (disk s2)(embedding_path env chat_id := None)\<rparr>))
             = fst (get_response env now chat_id q s2)
         \<and> chat_storage (snd (get_response env now chat_id q
                 (s2\<lparr>disk := (disk s2)(embedding_path env chat_id := None)\<rparr>)))
             = chat_storage (snd (get_response env now chat_id q s2))
         \<and> (\<forall>docs reply.
               has_similarity_search env kb \<and> similarity_search env kb q default_k = Inr docs \<and>
               list_all has_page_content docs \<and>
               model_invoke env (combined_input (join '' '' (map page_content docs)) q) = Inr reply
               \<longrightarrow> fst (get_response env now chat_id q
                         (s2\<lparr>disk := (disk s2)(embedding_path env chat_id := None)\<rparr>))
                     = Inr \<lparr>response = reply,
                            chat_history = messages chat_data @
                              [\<lparr>user = q, ai = reply, timestamp = now\<rparr>]\<rparr>)"
proof -
  let ?p = "embedding_path env chat_id"
  let ?d = "s2\<lparr>disk := (disk s2)(?p := None)\<rparr>"
  from process_pdf_success [OF assms(1)]
  obtain pages body chunks kb c0 where
    f: "pdf_reader env file_path = Inr pages" "join_pages pages = Inr body"
       "split_text body = Inr chunks" "chunks \<noteq> []" "embed_index env chunks = Inr kb"
       "save_error env ?p = None"
    and c0: "chat_storage s1 chat_id = Some c0" "metadata c0 ''file_path'' = Some file_path"
    and d1: "disk s1 ?p = Some (Inr kb)"
    by blast
  from chat_calls_keeps [OF assms(5) d1 c0(1)]
  obtain c2 where d2: "disk s2 ?p = Some (Inr kb)"
    and c2: "chat_storage s2 chat_id = Some c2" "metadata c2 = metadata c0"
    by blast
  have restore: "?d\<lparr>disk := (disk ?d)(?p \<mapsto> Inr kb)\<rparr> = s2"
  proof -
    have "(disk s2)(?p \<mapsto> Inr kb) = disk s2"
      using d2 by (rule map_upd_triv)
    then show ?thesis by simp
  qed
  have h: "chat_storage ?d chat_id = Some c2" "metadata c2 ''file_path'' = Some file_path"
      "disk ?d ?p = None"
    using c2 c0(2) by simp_all
  note t = rebuild_same_as_persisted [OF assms(3,4) h(1,2) assms(2) h(3) f, of now,
      unfolded restore]
  have dk: "(disk ?d)(?p \<mapsto> Inr kb) = disk s2"
    using d2 by (simp add: map_upd_triv)
  show ?thesis
    apply (rule exI [of _ c2], rule exI [of _ chunks], rule exI [of _ kb])
    using t c2(1) d1 d2 unfolding dk by blast
qed

theorem chat_rebuilds_missing_index_witness:
  "process_pdf example_env ''c1'' ''2024-01-01T00:00:00'' ''2024-01-01T00:00:01''
      ''uploads/sky.pdf'' empty_state = (Inr ''c1'', sky_ingested)
   \<and> strip ''c1'' \<noteq> [] \<and> strip ''And the grass?'' \<noteq> []
   \<and> disk sky_talked ''storage/embeddings/c1.faiss''
       = Some (Inr [''The sky is blue. Grass is green.''])
   \<and> disk (sky_index_deleted sky_talked) ''storage/embeddings/c1.faiss'' = None
   \<and> disk (snd (get_response example_env ''2024-01-02T10:05:00'' ''c1'' ''And the grass?''
                   (sky_index_deleted sky_talked)))
       = disk sky_talked
   \<and> fst (get_response example_env ''2024-01-02T10:05:00'' ''c1'' ''And the grass?''
            (sky_index_deleted sky_talked))
       = fst (get_response example_env ''2024-01-02T10:05:00'' ''c1'' ''And the grass?'' sky_talked)
   \<and> fst (get_response example_env ''2024-01-02T10:05:00'' ''c1'' ''And the grass?''
            (sky_index_deleted sky_talked))
       = Inr \<lparr>response = ''Blue.'',
              chat_history =
                [\<lparr>user = sky_question, ai = ''Blue.'', timestamp = ''2024-01-02T10:00:00''\<rparr>,
                 \<lparr>user = ''And the grass?'', ai = ''Blue.'',
                  timestamp = ''2024-01-02T10:05:00''\<rparr>]\<rparr>"
proof -
  have i: "process_pdf example_env ''c1'' ''2024-01-01T00:00:00'' ''2024-01-01T00:00:01''
      ''uploads/sky.pdf'' empty_state = (Inr ''c1'', sky_ingested)"
    by (simp add: sky_ingested_def process_pdf_sky)
  have v: "''uploads/sky.pdf'' \<noteq> []" "strip ''c1'' \<noteq> []" "strip ''And the grass?'' \<noteq> []"
    by (simp_all add: strip_def isspace_def)
  have p: "embedding_path example_env ''c1'' = ''storage/embeddings/c1.faiss''"
    by (simp add: embedding_path_def embeddings_dir_def example_env_def)
  note t = chat_rebuilds_missing_index [OF i v sky_talked_eq, of "''2024-01-02T10:05:00''",
      unfolded p, folded sky_index_deleted_def]
  have e: "fst (get_response example_env ''2024-01-02T10:05:00'' ''c1'' ''And the grass?'' sky_talked)
       = Inr \<lparr>response = ''Blue.'',
              chat_history =
                [\<lparr>user = sky_question, ai = ''Blue.'', timestamp = ''2024-01-02T10:00:00''\<rparr>,
                 \<lparr>user = ''And the grass?'', ai = ''Blue.'',
                  timestamp = ''2024-01-02T10:05:00''\<rparr>]\<rparr>"
    by (simp add: sky_talked_def sky_defs)
  have d: "disk sky_talked ''storage/embeddings/c1.faiss''
       = Some (Inr [''The sky is blue. Grass is green.''])"
    by (simp add: sky_talked_def sky_defs)
  show ?thesis
    using t i v e d by (auto simp: sky_index_deleted_def)
qed

text \<open>
  Claim C1 as stated fails without the condition on the file. After the ingestion of
  a file and the deletion of the persisted index, a chat call that succeeded before the
  deletion fails with a processing error when the stored file is gone; and when the
  file at the stored path has been overwritten, the call builds the index from the new
  content, so that the prompt of the model carries another context than before the
  deletion.
\<close>

theorem chat_after_deletion_can_differ:
  "process_pdf example_env ''c1'' ''2024-01-01T00:00:00'' ''2024-01-01T00:00:01''
      ''uploads/sky.pdf'' empty_state = (Inr ''c1'', sky_ingested)
   \<and> fst (get_response missing_env ''2024-01-02T10:00:00'' ''c1'' sky_question sky_ingested)
       = Inr \<lparr>response = ''Blue.'',
              chat_history = [\<lparr>user = sky_question, ai = ''Blue.'',
                               timestamp = ''2024-01-02T10:00:00''\<rparr>]\<rparr>
   \<and> fst (get_response missing_env ''2024-01-02T10:00:00'' ''c1'' sky_question
            (sky_index_deleted sky_ingested))
       = Inl (RuntimeError (''Failed to process chat message: '' @
                ''Failed to retrieve knowledge base: '' @
                ''Failed to extract text from PDF: No such file or directory''))
   \<and> filter is_model_invoke (new_events sky_ingested
          (snd (get_response replaced_env ''2024-01-02T10:00:00'' ''c1'' sky_question sky_ingested)))
       = [ModelInvoke (combined_input ''The sky is blue. Grass is green.'' sky_question)]
   \<and> filter is_model_invoke (new_events (sky_index_deleted sky_ingested)
          (snd (get_response replaced_env ''2024-01-02T10:00:00'' ''c1'' sky_question
                  (sky_index_deleted sky_ingested))))
       = [ModelInvoke (combined_input ''Roses are red.'' sky_question)]"
proof -
  have r: "split_text ''Roses are red.'' = Inr [''Roses are red.'']"
    by (simp add: split_text_def CharacterTextSplitter_split_text_def split_text_with_regex_def
      merge_splits_def join_docs_def strip_def isspace_def add_piece_def Let_def)
  have i: "process_pdf example_env ''c1'' ''2024-01-01T00:00:00'' ''2024-01-01T00:00:01''
      ''uploads/sky.pdf'' empty_state = (Inr ''c1'', sky_ingested)"
    by (simp add: sky_ingested_def process_pdf_sky)
  show ?thesis
    unfolding i
    by (simp add: sky_defs missing_env_def replaced_env_def new_events_def
        extract_text_from_pdf_def create_knowledge_base_def save_knowledge_base_def
        FAISS_save_local_def FAISS_from_texts_def r)
qed

section \<open>The chunker\<close>

subsection \<open>Lengths of joined pieces\<close>






subsection \<open>The inner loop\<close>



subsection \<open>One round of the outer loop\<close>









subsection \<open>The invariant of the outer loop\<close>





subsection \<open>Particular texts\<close>











subsection \<open>The runs of lines behind the chunks\<close>













subsection \<open>A text of four lines\<close>





subsection \<open>The claim\<close>




end
